theory Spec2Isabelle
  imports Main "HOL-Library.Sublist"
begin

text \<open>
  The core of cli-kit, a toolkit for command line interfaces written in JavaScript: the
  tree of contexts with its scoped property reads and its command registration
  (parser/context.js), extensions (parser/extension.js) and the dispatch of the CLI
  (cli.js). Every function is translated from its source, which the text before a
  definition quotes. Exceptions are values (\<open>Inl\<close> of a sum), \<^verbatim>\<open>undefined\<close> is
  \<open>None\<close>, and what lies outside the sources here (the file system, the module loader,
  the parser, child processes) is an argument of the function that uses it. The
  definitions come first, then concrete inputs, then the properties.
\<close>

section \<open>Error taxonomy (lib/errors.js)\<close>

text \<open>
  \<^verbatim>\<open>createError(code, type, desc)\<close> registers one constructor per code; the error
  object carries \<^verbatim>\<open>code = 'ERR_' + code\<close> and the message it was built with. Errors
  that do not come from this table (a \<^verbatim>\<open>TypeError\<close> of the runtime, whatever a
  \<^verbatim>\<open>require\<close>d module throws) are kept apart.
\<close>

datatype error_code =
    ALREADY_EXISTS | CONFLICT | DEFAULT_COMMAND_NOT_FOUND | EMPTY_STRING | FILE_NOT_FOUND
  | INVALID_ALIAS | INVALID_ARGUMENT | INVALID_CLIKIT_OBJECT | INVALID_DATA_TYPE
  | INVALID_DATE | INVALID_EXTENSION | INVALID_JSON | INVALID_NODE_JS | INVALID_NUMBER
  | INVALID_OPTION | INVALID_OPTION_FORMAT | INVALID_PACKAGE_JSON | INVALID_VALUE
  | MISSING_REQUIRED_ARGUMENT | MISSING_REQUIRED_OPTION | NO_EXECUTABLE | NOT_AN_OPTION
  | NOT_YES_NO | RANGE_ERROR | TEMPLATE_NOT_FOUND | TYPE_ERROR

datatype error =
    E error_code string
  | RuntimeTypeError string
  | Foreign string

fun code_of :: "error \<Rightarrow> error_code option" where
  "code_of (E c msg) = Some c"
| "code_of (RuntimeTypeError msg) = None"
| "code_of (Foreign msg) = None"

fun message_of :: "error \<Rightarrow> string" where
  "message_of (E c msg) = msg"
| "message_of (RuntimeTypeError msg) = msg"
| "message_of (Foreign msg) = msg"


section \<open>Context: the parent chain and the scoped property reads\<close>

text \<open>
  A context is an object with properties and an optional \<^verbatim>\<open>parent\<close>. Reading a
  property that is absent yields \<^verbatim>\<open>undefined\<close>, which is \<open>None\<close> here; any other
  value (\<^verbatim>\<open>null\<close> and \<^verbatim>\<open>false\<close> included) is \<open>Some v\<close>. The parent chain of
  a context is finite (the tree has single-parent edges and no cycles), which the
  datatype expresses.
\<close>

datatype 'v "context" =
  Context (own: "string \<Rightarrow> 'v option") (parent: "'v context option")

text \<open>
  \<^verbatim>\<open>
  get(name, defaultValue) {
      let value = this[name];
      for (let p = this.parent; p; p = p.parent) {
          value = p.get(name, value);
      }
      return value !== undefined ? value : defaultValue;
  }
  \<close>
  The \<^verbatim>\<open>for\<close> loop is \<open>get_loop\<close>: its first argument is the loop variable
  \<^verbatim>\<open>p\<close>, its last the running \<^verbatim>\<open>value\<close>.
\<close>

function get :: "'v context \<Rightarrow> string \<Rightarrow> 'v option \<Rightarrow> 'v option"
  and get_loop :: "'v context option \<Rightarrow> string \<Rightarrow> 'v option \<Rightarrow> 'v option" where
  "get this name defaultValue =
     (case get_loop (parent this) name (own this name) of
        Some v \<Rightarrow> Some v
      | None \<Rightarrow> defaultValue)"
| "get_loop None name val = val"
| "get_loop (Some p) name val = get_loop (parent p) name (get p name val)"
  by pat_completeness auto
termination
  apply (relation "measure (\<lambda>x. case x of
      Inl (c, _, _) \<Rightarrow> 2 * size c + 1
    | Inr (None, _, _) \<Rightarrow> 0
    | Inr (Some p, _, _) \<Rightarrow> 2 * size p + 2)")
    apply (auto split: option.splits)
  subgoal for this q by (cases this) simp
  subgoal for p name v q by (cases p) simp
  done

text \<open>
  \<^verbatim>\<open>
  prop(name, defaultValue) {
      let value = this[name];
      for (let p = this.parent; value === undefined && p; p = p.parent) {
          value = p.prop(name, value);
      }
      return value !== undefined ? value : defaultValue;
  }
  \<close>
  (\<open>prop'\<close> is the method \<^verbatim>\<open>prop\<close>, whose name is taken in Isabelle.)
\<close>

function prop' :: "'v context \<Rightarrow> string \<Rightarrow> 'v option \<Rightarrow> 'v option"
  and prop_loop :: "'v context option \<Rightarrow> string \<Rightarrow> 'v option \<Rightarrow> 'v option" where
  "prop' this name defaultValue =
     (case prop_loop (parent this) name (own this name) of
        Some v \<Rightarrow> Some v
      | None \<Rightarrow> defaultValue)"
| "prop_loop None name val = val"
| "prop_loop (Some p) name val =
     (if val = None then prop_loop (parent p) name (prop' p name val) else val)"
  by pat_completeness auto
termination
  apply (relation "measure (\<lambda>x. case x of
      Inl (c, _, _) \<Rightarrow> 2 * size c + 1
    | Inr (None, _, _) \<Rightarrow> 0
    | Inr (Some p, _, _) \<Rightarrow> 2 * size p + 2)")
    apply (auto split: option.splits)
  subgoal for this q by (cases this) simp
  subgoal for p name q by (cases p) simp
  done

subsection \<open>What the specification says the two reads return\<close>

text \<open>
  The chain of a context, the context itself first and the root last, and the values a
  property has along it that are not \<^verbatim>\<open>undefined\<close>. The topmost value is the last of
  them (closest to the root), the bottom-most the first (most local).
\<close>

fun chain :: "'v context \<Rightarrow> 'v context list" where
  "chain (Context props None) = [Context props None]"
| "chain (Context props (Some p)) = Context props (Some p) # chain p"

definition defined_values :: "'v context \<Rightarrow> string \<Rightarrow> 'v list" where
  "defined_values c name = List.map_filter (\<lambda>x. own x name) (chain c)"

definition topmost_value :: "'v context \<Rightarrow> string \<Rightarrow> 'v option" where
  "topmost_value c name =
     (case defined_values c name of [] \<Rightarrow> None | v # vs \<Rightarrow> Some (last (v # vs)))"

definition bottommost_value :: "'v context \<Rightarrow> string \<Rightarrow> 'v option" where
  "bottommost_value c name =
     (case defined_values c name of [] \<Rightarrow> None | v # vs \<Rightarrow> Some v)"

definition or_default :: "'v option \<Rightarrow> 'v option \<Rightarrow> 'v option" where
  "or_default val defaultValue = (case val of Some v \<Rightarrow> Some v | None \<Rightarrow> defaultValue)"

definition chain_from :: "'v context option \<Rightarrow> 'v context list" where
  "chain_from po = (case po of None \<Rightarrow> [] | Some p \<Rightarrow> chain p)"

definition last_defined :: "'v context list \<Rightarrow> string \<Rightarrow> 'v option \<Rightarrow> 'v option" where
  "last_defined cs name val =
     (case List.map_filter (\<lambda>x. own x name) cs of [] \<Rightarrow> val | v # vs \<Rightarrow> Some (last (v # vs)))"

definition first_defined :: "'v context list \<Rightarrow> string \<Rightarrow> 'v option \<Rightarrow> 'v option" where
  "first_defined cs name val =
     (case List.map_filter (\<lambda>x. own x name) cs of [] \<Rightarrow> val | v # vs \<Rightarrow> Some v)"


section \<open>Values, actions and commands\<close>

text \<open>
  The values a property of a context can hold, as far as the code below looks at them:
  it asks whether a value is truthy, whether it is an array and whether its
  \<^verbatim>\<open>typeof\<close> is \<^verbatim>\<open>'object'\<close>. An absent property (\<^verbatim>\<open>undefined\<close>) is \<open>None\<close> at the
  level of \<open>js_value option\<close>. Arrays and the other objects are opaque references.
\<close>

datatype js_value = JNull | JBool bool | JNum int | JStr string | JObj nat | JArr nat

fun truthy :: "js_value option \<Rightarrow> bool" where
  "truthy None = False"
| "truthy (Some JNull) = False"
| "truthy (Some (JBool b)) = b"
| "truthy (Some (JNum n)) = (n \<noteq> 0)"
| "truthy (Some (JStr s)) = (s \<noteq> [])"
| "truthy (Some (JObj r)) = True"
| "truthy (Some (JArr r)) = True"

fun is_array :: "js_value option \<Rightarrow> bool" where
  "is_array (Some (JArr r)) = True"
| "is_array v = False"

fun typeof_object :: "js_value option \<Rightarrow> bool" where
  "typeof_object (Some JNull) = True"
| "typeof_object (Some (JObj r)) = True"
| "typeof_object (Some (JArr r)) = True"
| "typeof_object v = False"

text \<open>
  The functions stored in the \<^verbatim>\<open>action\<close> property of a command. A function of the
  application is opaque (a tag); the closures the Extension constructor builds are
  represented by the variables they capture:
  \<^item> \<open>RunExecutable\<close> is \<^verbatim>\<open>() => this.exec()\<close>;
  \<^item> \<open>BadExtensionStub n err\<close> is the closure of extension.js lines 106 to 122, which
    captures \<^verbatim>\<open>pkg.json.name\<close> and the load error \<^verbatim>\<open>err\<close> (if any);
  \<^item> \<open>MissingExtensionStub p\<close> is the closure of lines 193 to 196, which captures
    \<^verbatim>\<open>extensionPath\<close>.
\<close>

datatype action =
    UserAction nat
  | RunExecutable
  | BadExtensionStub "string option" "error option"
  | MissingExtensionStub string

text \<open>
  The package record \<^verbatim>\<open>findPackage\<close> returns: \<^verbatim>\<open>{ clikit, json, main }\<close>, with the
  fields of the manifest the constructor reads. \<open>json_aliases\<close> is \<open>Some\<close> exactly when
  \<^verbatim>\<open>Array.isArray(pkg.json.aliases)\<close>; \<open>json_bin\<close> lists the entries of an object-valued
  \<^verbatim>\<open>bin\<close>.
\<close>

record package_json =
  json_name :: "string option"
  json_aliases :: "string list option"
  json_bin :: "(string \<times> string) list option"
  json_description :: "string option"

record package =
  pkg_clikit :: bool
  pkg_json :: package_json
  pkg_main :: "string option"

text \<open>
  A command object, as far as the contexts that hold it and \<^verbatim>\<open>CLI.exec\<close> read it:
  \<^verbatim>\<open>name\<close>, \<^verbatim>\<open>aliases\<close> (an object from alias to its visibility, or absent) and
  \<^verbatim>\<open>action\<close> (a function, or absent). An Extension is a Command with the fields
  extension.js declares and assigns; \<open>ext_context\<close> is the Extension as a context of the
  tree: its parent and the properties that the Context constructor copied to it, other
  than the ones that a field of the record holds.
\<close>

record command =
  cmd_name :: string
  cmd_aliases :: "(string \<times> bool) list option"
  cmd_action :: "action option"
  cmd_desc :: "string option"

record extension = command +
  executable :: "string option"
  execArgs :: "string list"
  isCLIKitExtension :: bool
  pkg :: "package option"
  version_override :: bool
  banner :: "js_value option"
  ext_context :: "js_value context"

datatype cmd = Command command | Extension extension

fun name_of :: "cmd \<Rightarrow> string" where
  "name_of (Command c) = cmd_name c"
| "name_of (Extension x) = cmd_name x"

fun aliases_of :: "cmd \<Rightarrow> (string \<times> bool) list option" where
  "aliases_of (Command c) = cmd_aliases c"
| "aliases_of (Extension x) = cmd_aliases x"

fun action_of :: "cmd \<Rightarrow> action option" where
  "action_of (Command c) = cmd_action c"
| "action_of (Extension x) = cmd_action x"


section \<open>Context.registerCommand\<close>

text \<open>
  Modelled from the spec: the class CommandList (parser/command-list.js) is not among the
  sources. The code here calls \<^verbatim>\<open>has\<close>, \<^verbatim>\<open>get\<close> and \<^verbatim>\<open>add\<close> on it, and the spec
  describes it as the list of a context's child commands, looked up by name; it is a map
  from the name of a command to the command, and \<^verbatim>\<open>add(cmd)\<close> stores \<^verbatim>\<open>cmd\<close> under
  \<^verbatim>\<open>cmd.name\<close>.
\<close>

type_synonym command_list = "string \<Rightarrow> cmd option"

definition commands_has :: "command_list \<Rightarrow> string \<Rightarrow> bool" where
  "commands_has cl k = (cl k \<noteq> None)"

definition commands_get :: "command_list \<Rightarrow> string \<Rightarrow> cmd option" where
  "commands_get cl k = cl k"

definition commands_add :: "command_list \<Rightarrow> cmd \<Rightarrow> command_list" where
  "commands_add cl c = cl(name_of c \<mapsto> c)"

text \<open>
  The part of a context that registration touches: \<^verbatim>\<open>this.commands\<close> (a CommandList)
  and \<^verbatim>\<open>this.lookup.commands\<close> (a plain object keyed by name), together with the
  properties and the parent that the scoped reads walk.
\<close>

record context_state =
  commands :: command_list
  lookup_commands :: "string \<Rightarrow> cmd option"
  own_props :: "string \<Rightarrow> js_value option"
  parent_ctx :: "js_value context option"

definition as_context :: "'a context_state_scheme \<Rightarrow> js_value context" where
  "as_context st = Context (own_props st) (parent_ctx st)"

text \<open>
  \<^verbatim>\<open>
  registerCommand(cmd) {
      if (this.commands.has(cmd.name)) {
          throw E.ALREADY_EXISTS(`Command "${cmd.name}" already exists`, ...);
      }
      this.commands.add(cmd);
      this.lookup.commands[cmd.name] = cmd;
      if (cmd.aliases) {
          for (const alias of Object.keys(cmd.aliases)) {
              if (!this.commands.has(alias)) {
                  this.lookup.commands[alias] = cmd;
              }
          }
      }
      return this;
  }
  \<close>
  \<open>register_aliases\<close> is the \<^verbatim>\<open>for\<close> loop over \<^verbatim>\<open>Object.keys(cmd.aliases)\<close>.
\<close>

fun register_aliases ::
  "cmd \<Rightarrow> string list \<Rightarrow> 'a context_state_scheme \<Rightarrow> 'a context_state_scheme" where
  "register_aliases c [] st = st"
| "register_aliases c (alias # rest) st =
     register_aliases c rest
       (if \<not> commands_has (commands st) alias
        then st\<lparr>lookup_commands := (lookup_commands st)(alias \<mapsto> c)\<rparr>
        else st)"

definition alias_keys :: "cmd \<Rightarrow> string list" where
  "alias_keys c = (case aliases_of c of None \<Rightarrow> [] | Some al \<Rightarrow> map fst al)"

definition registerCommand ::
  "'a context_state_scheme \<Rightarrow> cmd \<Rightarrow> error + 'a context_state_scheme" where
  "registerCommand this c =
     (if commands_has (commands this) (name_of c)
      then Inl (E ALREADY_EXISTS (''Command \"'' @ name_of c @ ''\" already exists''))
      else
        let st1 = this\<lparr>commands := commands_add (commands this) c\<rparr>;
            st2 = st1\<lparr>lookup_commands := (lookup_commands st1)(name_of c \<mapsto> c)\<rparr>
        in Inr (case aliases_of c of
                  None \<Rightarrow> st2
                | Some al \<Rightarrow> register_aliases c (map fst al) st2))"

section \<open>Context constructor: mixing an existing context\<close>

text \<open>
  \<^verbatim>\<open>const propIgnoreRegExp = /^_events|_links|args|commands|lookup|options$/;\<close>

  In a regular expression the alternation binds weaker than the anchors: \<^verbatim>\<open>^\<close> belongs
  to the first alternative only and \<^verbatim>\<open>$\<close> to the last. \<^verbatim>\<open>test\<close> therefore accepts a
  string that starts with \<^verbatim>\<open>_events\<close>, or contains \<^verbatim>\<open>_links\<close>, \<^verbatim>\<open>args\<close>,
  \<^verbatim>\<open>commands\<close> or \<^verbatim>\<open>lookup\<close> anywhere, or ends with \<^verbatim>\<open>options\<close>. The match is
  case sensitive.
\<close>

definition propIgnoreRegExp_test :: "string \<Rightarrow> bool" where
  "propIgnoreRegExp_test s =
     (prefix ''_events'' s \<or> sublist ''_links'' s \<or> sublist ''args'' s
      \<or> sublist ''commands'' s \<or> sublist ''lookup'' s \<or> suffix ''options'' s)"

text \<open>
  \<^verbatim>\<open>
  const ignoreOut = params.clikit instanceof Set && params.clikit.has('Context');
  for (const prop of Object.keys(params)) {
      if (!propIgnoreRegExp.test(prop)
          || ((prop === 'stdout' || prop === 'stderr') && ignoreOut)) {
          this[prop] = params[prop];
      }
  }
  \<close>
  The own enumerable properties of \<^verbatim>\<open>params\<close> are a list of pairs in the order of
  \<^verbatim>\<open>Object.keys\<close>; a \<^verbatim>\<open>Set\<close> is the list of its members. The result lists the
  assignments \<^verbatim>\<open>this[prop] = params[prop]\<close> that are made.
\<close>

definition ignoreOut_of :: "string list option \<Rightarrow> bool" where
  "ignoreOut_of clikit = (case clikit of None \<Rightarrow> False | Some s \<Rightarrow> ''Context'' \<in> set s)"

definition copied_properties :: "bool \<Rightarrow> (string \<times> 'v) list \<Rightarrow> (string \<times> 'v) list" where
  "copied_properties ignoreOut own_properties =
     filter (\<lambda>(prop, v). \<not> propIgnoreRegExp_test prop
                          \<or> ((prop = ''stdout'' \<or> prop = ''stderr'') \<and> ignoreOut))
            own_properties"

text \<open>The set of names the specification reserves.\<close>

definition reserved_properties :: "string set" where
  "reserved_properties = {''args'', ''commands'', ''options'', ''lookup'', ''_events'', ''_links''}"

text \<open>
  The options of a context that is mixed in (context.js lines 236 to 266). Of an option
  the loop reads its \<^verbatim>\<open>name\<close>; \<^verbatim>\<open>params.options\<close> is the list of its entries
  (group, options of the group), and every ancestor of the new context is given by the
  values of its own \<^verbatim>\<open>options\<close> (one list of options for each group).
  \<^verbatim>\<open>
  const isCLI = params.clikit.has('CLI');
  for (const [ group, options ] of entries) {
      for (const option of options) {
          let add = true;
          if (isCLI && option.name !== 'version') {
              let found = false;
              for (let p = this.parent; p && !found; p = p.parent) {
                  for (const opts of p.options.values()) {
                      for (const opt of opts) {
                          if (opt.name === option.name) { found = true; break; }
                      }
                  }
              }
              add = !found;
          }
          if (add) { this.option(option, group); }
      }
  }
  \<close>
  \<open>mixed_options\<close> lists the calls \<^verbatim>\<open>this.option(option, group)\<close> in the order they are
  made. The loop is entered when the marker set of \<^verbatim>\<open>params\<close> has \<^verbatim>\<open>'CLI'\<close> or
  \<^verbatim>\<open>'Command'\<close>; otherwise the constructor builds new options from their formats (lines
  268 to 288) and makes none of these calls.
\<close>

record option_decl =
  opt_name :: string
  opt_long :: "string option"
  opt_short :: "string option"

definition found_in_ancestors :: "option_decl list list list \<Rightarrow> option_decl \<Rightarrow> bool" where
  "found_in_ancestors ancestors option =
     list_ex (\<lambda>p. list_ex (\<lambda>opts. list_ex (\<lambda>opt. opt_name opt = opt_name option) opts) p)
             ancestors"

definition add_option :: "bool \<Rightarrow> option_decl list list list \<Rightarrow> option_decl \<Rightarrow> bool" where
  "add_option isCLI ancestors option =
     (if isCLI \<and> opt_name option \<noteq> ''version''
      then \<not> found_in_ancestors ancestors option
      else True)"

definition mixed_options ::
  "string list \<Rightarrow> option_decl list list list \<Rightarrow> (string \<times> option_decl list) list
     \<Rightarrow> (option_decl \<times> string) list" where
  "mixed_options clikit ancestors entries =
     (if ''CLI'' \<in> set clikit \<or> ''Command'' \<in> set clikit
      then concat (map (\<lambda>(group, options).
                          map (\<lambda>option. (option, group))
                              (filter (add_option (''CLI'' \<in> set clikit) ancestors) options))
                       entries)
      else [])"

section \<open>Extension: the constructor\<close>

text \<open>
  The parameter object of the constructor. \<open>p_extensionPath\<close> and \<open>p_name\<close> are \<open>None\<close>
  when the property is absent (for the path also when it is not a string); \<open>p_clikit\<close>
  is the \<^verbatim>\<open>clikit\<close> marker set of a cli-kit object, \<open>None\<close> on a plain object;
  \<open>p_props\<close> lists the remaining own enumerable properties.
\<close>

record params =
  p_extensionPath :: "string option"
  p_name :: "string option"
  p_parent :: "js_value context option"
  p_action :: "action option"
  p_aliases :: "string list option"
  p_desc :: "string option"
  p_banner :: "js_value option"
  p_clikit :: "string list option"
  p_props :: "(string \<times> js_value) list"

text \<open>
  What \<^verbatim>\<open>require(pkg.main)\<close> evaluates to. The constructor distinguishes a truthy value
  of type \<^verbatim>\<open>'object'\<close> from everything else, after following \<^verbatim>\<open>default\<close> once when
  the value has a truthy \<^verbatim>\<open>__esModule\<close>. \<open>NotAnObject\<close> stands for \<^verbatim>\<open>undefined\<close>,
  \<^verbatim>\<open>null\<close> and the primitive values, \<open>Callable\<close> for a function; the two flags of
  \<open>Callable\<close> and \<open>Object\<close> are \<^verbatim>\<open>__esModule\<close> and \<^verbatim>\<open>default\<close>, and the properties of
  an object are read as a parameter record.
\<close>

datatype module_value =
    NotAnObject
  | Callable bool module_value
  | Object bool module_value params

fun unwrap_esModule :: "module_value \<Rightarrow> module_value" where
  "unwrap_esModule (Callable True d) = d"
| "unwrap_esModule (Object True d p) = d"
| "unwrap_esModule v = v"

text \<open>
  The world outside the constructor: \<^verbatim>\<open>which.sync\<close> (\<open>None\<close> when it throws),
  \<^verbatim>\<open>fs.existsSync\<close>, \<^verbatim>\<open>findPackage\<close> of lib/util (which is not among the sources and may
  throw), \<^verbatim>\<open>require\<close>, \<^verbatim>\<open>path.basename\<close> and \<^verbatim>\<open>process.execPath\<close>.

  \<open>contents_error\<close> is the error, if any, that the Context constructor throws after it
  has copied the properties (context.js lines 172 to 310), while it creates and registers
  the commands, options, arguments and extensions that \<^verbatim>\<open>params\<close> declares. That part
  works through the classes Command, Option, ArgumentList and OptionList and through the
  file system, none of which is among the sources; what it throws is given from outside,
  as a function of what it reads: the own properties, the marker set and the parent of
  \<^verbatim>\<open>params\<close>.
\<close>

record environment =
  which_sync :: "string \<Rightarrow> string option"
  existsSync :: "string \<Rightarrow> bool"
  findPackage :: "string \<Rightarrow> error + package"
  require :: "string \<Rightarrow> error + module_value"
  basename :: "string \<Rightarrow> string"
  execPath :: string
  contents_error ::
    "(string \<times> js_value) list \<Rightarrow> string list option \<Rightarrow> js_value context option
       \<Rightarrow> error option"

text \<open>
  Strings: \<^verbatim>\<open>String.prototype.trim\<close>, and the text of a possibly undefined string
  inside a template literal. A character here is a code unit below 256; the white space
  and the line terminators of the language in that range are the six of ASCII and the
  no-break space U+00A0. The ones above that range (U+FEFF, U+2028 and the like) cannot
  occur in a string of this type.
\<close>

definition is_space :: "char \<Rightarrow> bool" where
  "is_space c =
     (c \<in> set [CHR '' '', CHR 0x09, CHR 0x0A, CHR 0x0B, CHR 0x0C, CHR 0x0D, CHR 0xA0])"

definition trim :: "string \<Rightarrow> string" where
  "trim s = rev (dropWhile is_space (rev (dropWhile is_space s)))"

definition template :: "string option \<Rightarrow> string" where
  "template s = (case s of None \<Rightarrow> ''undefined'' | Some t \<Rightarrow> t)"

definition nonempty :: "string option \<Rightarrow> bool" where
  "nonempty s = (case s of None \<Rightarrow> False | Some t \<Rightarrow> t \<noteq> [])"

text \<open>The local variables of the constructor when it reaches \<^verbatim>\<open>super(...)\<close> (line 160).\<close>

record locals =
  l_params :: params
  l_name :: string
  l_executable :: "string option"
  l_pkg :: "package option"
  l_isCLIKitExtension :: bool

text \<open>
  Lines 80 to 133, entered when \<^verbatim>\<open>pkg.clikit\<close> holds: the entry point is loaded and the
  result decides between the loaded context, a plain package, the stub and an error. The
  result is the pair of \<^verbatim>\<open>params\<close> and \<^verbatim>\<open>isCLIKitExtension\<close>.
  \<^verbatim>\<open>
  let ctx; let err;
  try { ctx = require(pkg.main); } catch (e) { err = e; }
  if (ctx && ctx.__esModule) { ctx = ctx.default; }
  isCLIKitExtension = true;
  if (ctx && typeof ctx === 'object') {
      if (ctx.clikit instanceof Set && (ctx.clikit.has('CLI') || ctx.clikit.has('Command'))) {
          params = ctx;
          params.parent = parent;
      } else {
          isCLIKitExtension = false;
      }
  } else if (params.ignoreInvalidExtensions
             || (params.parent && params.parent.get('ignoreInvalidExtensions', false))) {
      params.action = () => { ... };
  } else if (err) {
      const error = E.INVALID_EXTENSION(`Bad extension "${pkg.json.name}": ${err.message}`, ...);
      error.stack = err.stack;
      throw error;
  } else {
      throw E.INVALID_EXTENSION(`Extension does not export an object: ${extensionPath}`, ...);
  }
  \<close>
\<close>

definition compatible :: "params \<Rightarrow> bool" where
  "compatible ctx =
     (case p_clikit ctx of
        None \<Rightarrow> False
      | Some s \<Rightarrow> ''CLI'' \<in> set s \<or> ''Command'' \<in> set s)"

definition ignoreInvalidExtensions :: "params \<Rightarrow> bool" where
  "ignoreInvalidExtensions params =
     (truthy (map_of (p_props params) ''ignoreInvalidExtensions'')
      \<or> (case p_parent params of
            None \<Rightarrow> False
          | Some par \<Rightarrow> truthy (get par ''ignoreInvalidExtensions'' (Some (JBool False)))))"

definition load_clikit_package ::
  "environment \<Rightarrow> params \<Rightarrow> string \<Rightarrow> package \<Rightarrow> string \<Rightarrow> error + params \<times> bool" where
  "load_clikit_package env params extensionPath pk main =
     (let loaded = require env main;
          err = (case loaded of Inl e \<Rightarrow> Some e | Inr v \<Rightarrow> None);
          ctx = (case loaded of Inl e \<Rightarrow> NotAnObject | Inr v \<Rightarrow> unwrap_esModule v)
      in case ctx of
           Object esm d loaded_params \<Rightarrow>
             if compatible loaded_params
             then Inr (loaded_params\<lparr>p_parent := p_parent params\<rparr>, True)
             else Inr (params, False)
         | _ \<Rightarrow>
             if ignoreInvalidExtensions params
             then Inr (params\<lparr>p_action :=
                         Some (BadExtensionStub (json_name (pkg_json pk)) err)\<rparr>, True)
             else (case err of
                     Some e \<Rightarrow>
                       Inl (E INVALID_EXTENSION
                              (''Bad extension \"'' @ template (json_name (pkg_json pk))
                               @ ''\": '' @ message_of e))
                   | None \<Rightarrow>
                       Inl (E INVALID_EXTENSION
                              (''Extension does not export an object: '' @ extensionPath))))"

text \<open>
  Lines 135 to 156: the aliases and the description taken from the manifest.
  \<^verbatim>\<open>
  params.aliases = Array.isArray(pkg.json.aliases) ? pkg.json.aliases : [];
  if (params.name && params.name !== name && !params.aliases.includes(params.name)) {
      params.aliases.push(params.name);
  }
  if (pkg.json.bin) {
      const primary = pkg.json.bin[pkg.json.name];
      for (const [ name, bin ] of Object.entries(pkg.json.bin)) {
          if (bin === primary && !params.aliases.includes(name)) {
              params.aliases.push(name);
          }
      }
  }
  if (pkg.json.description) { params.desc = pkg.json.description; }
  \<close>
\<close>

fun push_bin_aliases :: "string option \<Rightarrow> (string \<times> string) list \<Rightarrow> string list \<Rightarrow> string list" where
  "push_bin_aliases primary [] aliases = aliases"
| "push_bin_aliases primary ((bin_name, bin) # rest) aliases =
     push_bin_aliases primary rest
       (if Some bin = primary \<and> bin_name \<notin> set aliases then aliases @ [bin_name] else aliases)"

definition manifest_aliases :: "params \<Rightarrow> string \<Rightarrow> package_json \<Rightarrow> string list" where
  "manifest_aliases params name json =
     (let a0 = (case json_aliases json of Some a \<Rightarrow> a | None \<Rightarrow> []);
          a1 = (case p_name params of
                  Some n \<Rightarrow> if n \<noteq> [] \<and> n \<noteq> name \<and> n \<notin> set a0 then a0 @ [n] else a0
                | None \<Rightarrow> a0)
      in case json_bin json of
           None \<Rightarrow> a1
         | Some bin \<Rightarrow> push_bin_aliases (map_of bin (template (json_name json))) bin a1)"

text \<open>
  When \<^verbatim>\<open>pkg.json.aliases\<close> is an array, \<^verbatim>\<open>params.aliases\<close> is that very array, so the
  names pushed to it show in the manifest that \<^verbatim>\<open>this.pkg\<close> keeps.
\<close>

definition with_pushed_aliases :: "package \<Rightarrow> string list \<Rightarrow> package" where
  "with_pushed_aliases pk aliases =
     pk\<lparr>pkg_json := (pkg_json pk)\<lparr>json_aliases :=
           (case json_aliases (pkg_json pk) of None \<Rightarrow> None | Some a \<Rightarrow> Some aliases)\<rparr>\<rparr>"

definition apply_manifest :: "params \<Rightarrow> string \<Rightarrow> package_json \<Rightarrow> params" where
  "apply_manifest params name json =
     (let params1 = params\<lparr>p_aliases := Some (manifest_aliases params name json)\<rparr>
      in if nonempty (json_description json)
         then params1\<lparr>p_desc := json_description json\<rparr>
         else params1)"

text \<open>
  Lines 62 to 158: the \<^verbatim>\<open>try\<close> around \<^verbatim>\<open>which.sync\<close> and its \<^verbatim>\<open>catch\<close> clause.
  \<^verbatim>\<open>
  try {
      executable = which.sync(extensionPath);
      params.action = () => this.exec();
  } catch (e) {
      if (fs.existsSync(extensionPath)) {
          pkg = findPackage(extensionPath);
          if (!pkg.main) {
              throw E.INVALID_EXTENSION(`Unable to find extension's main file: ${extensionPath}`);
          }
          if (!name) { name = String(pkg.json.name || '').trim(); }
          if (pkg.clikit) { ... lines 80 to 133 ... }
          ... lines 135 to 156 ...
      }
  }
  \<close>
\<close>

definition resolve :: "environment \<Rightarrow> params \<Rightarrow> string \<Rightarrow> string \<Rightarrow> error + locals" where
  "resolve env params extensionPath name0 =
     (case which_sync env extensionPath of
        Some exe \<Rightarrow>
          Inr \<lparr>l_params = params\<lparr>p_action := Some RunExecutable\<rparr>, l_name = name0,
               l_executable = Some exe, l_pkg = None, l_isCLIKitExtension = False\<rparr>
      | None \<Rightarrow>
          if existsSync env extensionPath then
            (case findPackage env extensionPath of
               Inl e \<Rightarrow> Inl e
             | Inr pk \<Rightarrow>
                 (case pkg_main pk of
                    None \<Rightarrow>
                      Inl (E INVALID_EXTENSION
                             (''Unable to find extension's main file: '' @ extensionPath))
                  | Some main \<Rightarrow>
                      if main = [] then
                        Inl (E INVALID_EXTENSION
                               (''Unable to find extension's main file: '' @ extensionPath))
                      else
                        let name = (if name0 = []
                                    then trim (case json_name (pkg_json pk) of
                                                 None \<Rightarrow> [] | Some n \<Rightarrow> n)
                                    else name0)
                        in case (if pkg_clikit pk
                                 then load_clikit_package env params extensionPath pk main
                                 else Inr (params, False)) of
                             Inl e \<Rightarrow> Inl e
                           | Inr (params1, isCLIKit) \<Rightarrow>
                               Inr \<lparr>l_params = apply_manifest params1 name (pkg_json pk),
                                    l_name = name, l_executable = None,
                                    l_pkg = Some (with_pushed_aliases pk
                                              (manifest_aliases params1 name (pkg_json pk))),
                                    l_isCLIKitExtension = isCLIKit\<rparr>))
          else
            Inr \<lparr>l_params = params, l_name = name0, l_executable = None, l_pkg = None,
                 l_isCLIKitExtension = False\<rparr>)"

text \<open>
  The Context constructor (context.js lines 143 to 311) on a parameter record. The
  properties \<^verbatim>\<open>args\<close>, \<^verbatim>\<open>options\<close> and \<^verbatim>\<open>extensions\<close> of \<^verbatim>\<open>params\<close> are read from
  its own properties.
  \<^verbatim>\<open>
  if (!params || typeof params !== 'object'
      || (params.clikit instanceof Set && !params.clikit.has('Context'))) {
      throw E.INVALID_ARGUMENT('Expected parameters to be an object, CLI, Command, or Context', ...);
  }
  if (params.args && !Array.isArray(params.args)) {
      throw E.INVALID_ARGUMENT('Expected args to be an array', ...);
  }
  if (params.options && typeof params.options !== 'object') {
      throw E.INVALID_ARGUMENT('Expected options to be an object or an array', ...);
  }
  if (params.extensions && typeof params.extensions !== 'object') {
      throw E.INVALID_ARGUMENT('Expected extensions to be an object or an array', ...);
  }
  super();
  const ignoreOut = params.clikit instanceof Set && params.clikit.has('Context');
  for (const prop of Object.keys(params)) { ... this[prop] = params[prop]; ... }
  ...
  let { commands } = params;
  if (commands) { ... this.command(...) ... }
  if (params.clikit instanceof Set
      && (params.clikit.has('CLI') || params.clikit.has('Command'))) {
      ... Object.entries(params.options) ... this.option(option, group) ...
  } else {
      if (Array.isArray(params.options)) { ... this.option(...) ... }
      else if (typeof params.options === 'object') { ... Object.keys(params.options) ... }
  }
  if (Array.isArray(params.args)) { ... this.argument(arg) ... }
  if (params.extensions) { ... this.extension(...) ... }
  \<close>
  The result is the new context: the copied properties and the parent. When none of the
  conditions of lines 172 to 310 holds (\<open>declares_contents\<close>), the rest of the
  constructor creates the empty lists and the lookup table and returns.
\<close>

definition Context_checks :: "params \<Rightarrow> error option" where
  "Context_checks params =
     (if (case p_clikit params of None \<Rightarrow> False | Some s \<Rightarrow> ''Context'' \<notin> set s) then
        Some (E INVALID_ARGUMENT
                ''Expected parameters to be an object, CLI, Command, or Context'')
      else if truthy (map_of (p_props params) ''args'')
              \<and> \<not> is_array (map_of (p_props params) ''args'') then
        Some (E INVALID_ARGUMENT ''Expected args to be an array'')
      else if truthy (map_of (p_props params) ''options'')
              \<and> \<not> typeof_object (map_of (p_props params) ''options'') then
        Some (E INVALID_ARGUMENT ''Expected options to be an object or an array'')
      else if truthy (map_of (p_props params) ''extensions'')
              \<and> \<not> typeof_object (map_of (p_props params) ''extensions'') then
        Some (E INVALID_ARGUMENT ''Expected extensions to be an object or an array'')
      else None)"

definition declares_contents :: "params \<Rightarrow> bool" where
  "declares_contents params =
     (truthy (map_of (p_props params) ''commands'')
      \<or> compatible params
      \<or> typeof_object (map_of (p_props params) ''options'')
      \<or> is_array (map_of (p_props params) ''args'')
      \<or> truthy (map_of (p_props params) ''extensions''))"

definition own_context :: "params \<Rightarrow> js_value context" where
  "own_context params =
     Context (map_of (copied_properties (ignoreOut_of (p_clikit params)) (p_props params)))
             (p_parent params)"

definition Context_constructor :: "environment \<Rightarrow> params \<Rightarrow> error + js_value context" where
  "Context_constructor env params =
     (case Context_checks params of
        Some e \<Rightarrow> Inl e
      | None \<Rightarrow>
          if \<not> declares_contents params then Inr (own_context params)
          else
            (case contents_error env (p_props params) (p_clikit params) (p_parent params) of
               Some e \<Rightarrow> Inl e
             | None \<Rightarrow> Inr (own_context params)))"

text \<open>
  Modelled from the spec: the class Command (parser/command.js) is not among the sources.
  By the spec a Command is a thin specialisation of Context with a name, aliases kept as
  an object from alias to its visibility, an action and a banner; its constructor takes
  the name, hands \<^verbatim>\<open>params\<close> to the Context constructor and adds no check of its own.
  The result is the command with the context it is.
\<close>

definition visible_aliases :: "string list option \<Rightarrow> (string \<times> bool) list option" where
  "visible_aliases a = map_option (map (\<lambda>alias. (alias, True))) a"

definition Command_constructor ::
  "environment \<Rightarrow> string \<Rightarrow> params \<Rightarrow> error + command \<times> js_value context" where
  "Command_constructor env name params =
     (case Context_constructor env params of
        Inl e \<Rightarrow> Inl e
      | Inr ctx \<Rightarrow>
          Inr (\<lparr>cmd_name = name,
                cmd_aliases = visible_aliases (p_aliases params),
                cmd_action = p_action params,
                cmd_desc = p_desc params\<rparr>, ctx))"

text \<open>
  Lines 160 to 203: \<^verbatim>\<open>super(name || path.basename(extensionPath), params)\<close> and what
  follows it. In the branch that reads \<^verbatim>\<open>this.extensionPath\<close> the object \<^verbatim>\<open>params\<close> is
  still the one the constructor was called with, so the property copied from it is
  \<^verbatim>\<open>extensionPath\<close>. The scoped read of \<^verbatim>\<open>ignoreMissingExtensions\<close> starts at the new
  object, whose own properties are the ones the Context constructor copied.
  \<^verbatim>\<open>
  this.banner            = params.banner;
  this.executable        = executable;
  this.isCLIKitExtension = isCLIKitExtension;
  this.pkg               = pkg;
  if (!isCLIKitExtension) { this.option('-v, --version', { ..., hidden: true }); }
  if (isCLIKitExtension) {
      log(...);
  } else if (pkg) {
      this.executable = process.execPath;
      this.execArgs.unshift(this.extensionPath);
      this.action = () => this.exec();
  } else if (executable) {
      log(...);
  } else if (this.get('ignoreMissingExtensions', false)) {
      this.action = () => { ... stderr.write(`Extension not found: ...`) };
  } else {
      throw E.INVALID_EXTENSION(`Extension not found: ${extensionPath}`, ...);
  }
  \<close>
\<close>

definition finish :: "environment \<Rightarrow> string \<Rightarrow> locals \<Rightarrow> error + extension" where
  "finish env extensionPath l =
     (let params = l_params l
      in case Command_constructor env
                (if l_name l \<noteq> [] then l_name l else basename env extensionPath) params of
           Inl e \<Rightarrow> Inl e
         | Inr (base, ctx) \<Rightarrow>
             let this = \<lparr>cmd_name = cmd_name base,
                         cmd_aliases = cmd_aliases base,
                         cmd_action = cmd_action base,
                         cmd_desc = cmd_desc base,
                         executable = l_executable l,
                         execArgs = [],
                         isCLIKitExtension = l_isCLIKitExtension l,
                         pkg = l_pkg l,
                         version_override = (\<not> l_isCLIKitExtension l),
                         banner = p_banner params,
                         ext_context = ctx\<rparr>
             in if l_isCLIKitExtension l then Inr this
                else if l_pkg l \<noteq> None then
                  Inr (this\<lparr>executable := Some (execPath env),
                            execArgs := extensionPath # execArgs this,
                            cmd_action := Some RunExecutable\<rparr>)
                else if nonempty (l_executable l) then Inr this
                else if truthy (get ctx ''ignoreMissingExtensions'' (Some (JBool False))) then
                  Inr (this\<lparr>cmd_action := Some (MissingExtensionStub extensionPath)\<rparr>)
                else
                  Inl (E INVALID_EXTENSION (''Extension not found: '' @ extensionPath)))"

text \<open>
  The scoped read \<^verbatim>\<open>this.get('ignoreMissingExtensions', false)\<close> of the last branches,
  as a function of the parameters the new object was built from.
\<close>

definition ignoreMissingExtensions :: "params \<Rightarrow> bool" where
  "ignoreMissingExtensions params =
     truthy (get (own_context params) ''ignoreMissingExtensions'' (Some (JBool False)))"

text \<open>
  The constructor as a whole. The argument is \<open>None\<close> when it is not an object (or is an
  array).
  \<^verbatim>\<open>
  if (!params || typeof params !== 'object' || Array.isArray(params)) {
      throw E.INVALID_ARGUMENT('Expected parameters to be an object or Context', ...);
  }
  let { extensionPath, name, parent } = params;
  if (!extensionPath || typeof extensionPath !== 'string') {
      throw E.INVALID_ARGUMENT('Expected extension path to be a non-empty string', ...);
  }
  name = String(name || '').trim();
  \<close>
\<close>

definition Extension_constructor :: "environment \<Rightarrow> params option \<Rightarrow> error + extension" where
  "Extension_constructor env arg =
     (case arg of
        None \<Rightarrow> Inl (E INVALID_ARGUMENT ''Expected parameters to be an object or Context'')
      | Some params \<Rightarrow>
          (case p_extensionPath params of
             None \<Rightarrow>
               Inl (E INVALID_ARGUMENT ''Expected extension path to be a non-empty string'')
           | Some extensionPath \<Rightarrow>
               if extensionPath = [] then
                 Inl (E INVALID_ARGUMENT ''Expected extension path to be a non-empty string'')
               else
                 let name = trim (case p_name params of None \<Rightarrow> [] | Some n \<Rightarrow> n)
                 in case resolve env params extensionPath name of
                      Inl e \<Rightarrow> Inl e
                    | Inr l \<Rightarrow> finish env extensionPath l))"

subsection \<open>The variants of an Extension, in the words of the specification\<close>

text \<open>
  The outcome of the constructor is one of: the executable variant (an executable with
  its arguments, the action runs it, not a cli-kit extension), the cli-kit variant (the
  loaded context is merged into the Extension, no executable), an invalid stub (no
  executable, the action is the given stub closure) or a failure with an error of a given
  code. Merged means: the action and the banner of the loaded context are those of the
  Extension, and the Extension as a context has the properties that mixing copies from the
  loaded context, under the parent the constructor was given.
\<close>

definition executable_variant :: "error + extension \<Rightarrow> string \<Rightarrow> string list \<Rightarrow> bool" where
  "executable_variant r exe args =
     (case r of
        Inl e \<Rightarrow> False
      | Inr x \<Rightarrow> executable x = Some exe \<and> execArgs x = args
                 \<and> cmd_action x = Some RunExecutable \<and> \<not> isCLIKitExtension x)"

definition clikit_variant ::
  "error + extension \<Rightarrow> params \<Rightarrow> js_value context option \<Rightarrow> bool" where
  "clikit_variant r loaded par =
     (case r of
        Inl e \<Rightarrow> False
      | Inr x \<Rightarrow> isCLIKitExtension x \<and> executable x = None
                 \<and> cmd_action x = p_action loaded
                 \<and> banner x = p_banner loaded
                 \<and> own (ext_context x)
                     = map_of (copied_properties (ignoreOut_of (p_clikit loaded))
                                 (p_props loaded))
                 \<and> parent (ext_context x) = par)"

definition invalid_stub :: "error + extension \<Rightarrow> action \<Rightarrow> bool" where
  "invalid_stub r stub =
     (case r of
        Inl e \<Rightarrow> False
      | Inr x \<Rightarrow> executable x = None \<and> cmd_action x = Some stub)"

definition fails_with :: "error + 'a \<Rightarrow> error_code \<Rightarrow> bool" where
  "fails_with r c = (case r of Inl e \<Rightarrow> code_of e = Some c | Inr x \<Rightarrow> False)"

text \<open>
  What loading the entry point gives: an error, a value that is not an object, or an
  object (after \<^verbatim>\<open>default\<close> of an ES module is followed).
\<close>

datatype load_result = Load_error error | Loaded_other | Loaded_object params

definition load_result_of :: "environment \<Rightarrow> string \<Rightarrow> load_result" where
  "load_result_of env main =
     (case require env main of
        Inl e \<Rightarrow> Load_error e
      | Inr v \<Rightarrow>
          (case unwrap_esModule v of
             Object esm d loaded \<Rightarrow> Loaded_object loaded
           | _ \<Rightarrow> Loaded_other))"

text \<open>
  The Context constructor accepts a parameter object when it returns a context for it,
  and refuses it with an error otherwise.
\<close>

definition accepted :: "environment \<Rightarrow> params \<Rightarrow> bool" where
  "accepted env params =
     (case Context_constructor env params of Inl e \<Rightarrow> False | Inr ctx \<Rightarrow> True)"

text \<open>
  Claim C1 as it is stated, for a path that is not an executable on PATH, exists on disk
  and belongs to a package with cli-kit metadata: the outcome is the cli-kit variant, or
  the stub of a package that could not be loaded, or a failure with INVALID_EXTENSION.
\<close>

definition claimed_clikit_outcome :: "error + extension \<Rightarrow> bool" where
  "claimed_clikit_outcome r =
     (case r of
        Inl e \<Rightarrow> code_of e = Some INVALID_EXTENSION
      | Inr x \<Rightarrow>
          (isCLIKitExtension x \<and> executable x = None)
          \<or> (case cmd_action x of
                Some (BadExtensionStub n err) \<Rightarrow> executable x = None
              | _ \<Rightarrow> False))"

section \<open>Extension: running the executable and the stubs\<close>

text \<open>
  The terminal object that \<^verbatim>\<open>this.get('terminal')\<close> finds along the parent chain, and the
  real streams of the process. Streams are compared by identity, so a stream is a
  number. The scoped read yields \<^verbatim>\<open>undefined\<close> when no context of the chain has a
  \<^verbatim>\<open>terminal\<close> property; that is \<open>None\<close>.
\<close>

record terminal =
  stdin :: nat
  stdout :: nat
  stderr :: nat

datatype stdio = inherit | pipe

record spawn_call =
  spawn_command :: string
  spawn_args :: "string list"
  spawn_stdio :: "stdio list"

text \<open>
  The argument of the \<^verbatim>\<open>close\<close> event of the child: the exit code, or \<^verbatim>\<open>null\<close> when
  the child was ended by a signal. The event itself may never come (\<open>None\<close> below), and
  it may come without an argument, in which case the default of the listener
  \<^verbatim>\<open>(code = 0) => resolve({ code })\<close> applies.
\<close>

datatype exit_code = Code int | NullCode

datatype 'a promise = Pending | Resolved 'a | Rejected error

record exec_effects =
  spawned :: "spawn_call option"
  piped :: "(nat \<times> nat) list"
  returned :: "exit_code promise"

text \<open>
  \<^verbatim>\<open>
  exec() {
      return new Promise((resolve, reject) => {
          if (!this.executable) {
              return reject(E.NO_EXECUTABLE('No executable to run', ...));
          }
          const { stderr, stdin, stdout } = this.get('terminal');
          const stdio = [
              !this.isCLIKitExtension || stdin === process.stdin   ? 'inherit' : 'pipe',
              !this.isCLIKitExtension || stdout === process.stdout ? 'inherit' : 'pipe',
              !this.isCLIKitExtension || stderr === process.stderr ? 'inherit' : 'pipe'
          ];
          const child = spawn(this.executable, this.execArgs, { stdio });
          if (stdio[1] === 'pipe') { child.stdout.pipe(stdout); }
          if (stdio[2] === 'pipe') { child.stderr.pipe(stderr); }
          child.on('close', (code = 0) => resolve({ code }));
      });
  }
  \<close>
  (\<open>Extension_exec\<close>, to tell it from the method \<^verbatim>\<open>exec\<close> of the CLI.)
  The arguments are the extension, the result of \<^verbatim>\<open>this.get('terminal')\<close>, the streams of
  the process and what becomes of the child. An exception inside the executor of a
  promise rejects the promise; destructuring \<^verbatim>\<open>undefined\<close> is such an exception. In
  \<open>piped\<close> the pair \<open>(1, s)\<close> records \<^verbatim>\<open>child.stdout.pipe(s)\<close> and \<open>(2, s)\<close> records
  \<^verbatim>\<open>child.stderr.pipe(s)\<close>.
\<close>

definition stdio_for :: "bool \<Rightarrow> nat \<Rightarrow> nat \<Rightarrow> stdio" where
  "stdio_for is_clikit stream process_stream =
     (if \<not> is_clikit \<or> stream = process_stream then inherit else pipe)"

definition Extension_exec ::
  "extension \<Rightarrow> terminal option \<Rightarrow> terminal \<Rightarrow> exit_code option option \<Rightarrow> exec_effects" where
  "Extension_exec this found_terminal process close_event =
     (if \<not> nonempty (executable this) then
        \<lparr>spawned = None, piped = [],
         returned = Rejected (E NO_EXECUTABLE ''No executable to run'')\<rparr>
      else
        case found_terminal of
          None \<Rightarrow>
            \<lparr>spawned = None, piped = [],
             returned = Rejected (RuntimeTypeError
               ''Cannot destructure property of undefined'')\<rparr>
        | Some t \<Rightarrow>
            let io = [stdio_for (isCLIKitExtension this) (stdin t) (stdin process),
                      stdio_for (isCLIKitExtension this) (stdout t) (stdout process),
                      stdio_for (isCLIKitExtension this) (stderr t) (stderr process)]
            in \<lparr>spawned = Some \<lparr>spawn_command = template (executable this),
                                  spawn_args = execArgs this,
                                  spawn_stdio = io\<rparr>,
                 piped = (if io ! 1 = pipe then [(1, stdout t)] else [])
                         @ (if io ! 2 = pipe then [(2, stderr t)] else []),
                 returned = (case close_event of
                               None \<Rightarrow> Pending
                             | Some None \<Rightarrow> Resolved (Code 0)
                             | Some (Some code) \<Rightarrow> Resolved code)\<rparr>)"

text \<open>
  The two stub closures. Both begin with \<^verbatim>\<open>const { stderr } = this.get('terminal')\<close> and
  then write to that stream; the result lists the texts written, in order.

  The stub of a package that could not be loaded (extension.js lines 106 to 122):
  \<^verbatim>\<open>
  if (err) {
      stderr.write(`Bad extension: ${pkg.json.name}\n`);
      stderr.write(`  ${err.toString()}\n`);
      let { stack } = err;
      const p = stack.indexOf('\n\n');
      if (p !== -1) { stack = stack.substring(0, p).trim(); }
      for (const line of stack.split('\n')) { stderr.write(`  ${line}\n`); }
  } else {
      stderr.write(`Invalid extension: ${pkg.json.name}\n`);
  }
  \<close>
  The stub of a missing extension (lines 193 to 196):
  \<^verbatim>\<open>stderr.write(`Extension not found: ${highlight(extensionPath)}\n`);\<close>

  What \<^verbatim>\<open>toString()\<close> and \<^verbatim>\<open>stack\<close> of an error object are, and the styling function
  \<^verbatim>\<open>highlight\<close> of the debug library, are given by the runtime.
\<close>

record runtime =
  error_toString :: "error \<Rightarrow> string"
  error_stack :: "error \<Rightarrow> string"
  highlight :: "string \<Rightarrow> string"

fun index_of :: "string \<Rightarrow> string \<Rightarrow> nat option" where
  "index_of sub [] = (if sub = [] then Some 0 else None)"
| "index_of sub (c # cs) =
     (if prefix sub (c # cs) then Some 0 else map_option Suc (index_of sub cs))"

fun split_on :: "char \<Rightarrow> string \<Rightarrow> string list" where
  "split_on sep [] = [[]]"
| "split_on sep (c # cs) =
     (if c = sep then [] # split_on sep cs
      else case split_on sep cs of
             [] \<Rightarrow> [[c]]
           | l # ls \<Rightarrow> (c # l) # ls)"

definition newline :: string where
  "newline = [CHR 0x0A]"

definition stack_lines :: "string \<Rightarrow> string list" where
  "stack_lines stack =
     split_on (CHR 0x0A)
       (case index_of (newline @ newline) stack of
          None \<Rightarrow> stack
        | Some p \<Rightarrow> trim (take p stack))"

fun stub_writes :: "runtime \<Rightarrow> action \<Rightarrow> string list" where
  "stub_writes rt (BadExtensionStub n (Some err)) =
     [''Bad extension: '' @ template n @ newline,
      ''  '' @ error_toString rt err @ newline]
     @ map (\<lambda>line. ''  '' @ line @ newline) (stack_lines (error_stack rt err))"
| "stub_writes rt (BadExtensionStub n None) =
     [''Invalid extension: '' @ template n @ newline]"
| "stub_writes rt (MissingExtensionStub extensionPath) =
     [''Extension not found: '' @ highlight rt extensionPath @ newline]"
| "stub_writes rt a = []"

definition run_stub ::
  "runtime \<Rightarrow> action \<Rightarrow> terminal option \<Rightarrow> error + (nat \<times> string) list" where
  "run_stub rt a found_terminal =
     (case found_terminal of
        None \<Rightarrow> Inl (RuntimeTypeError ''Cannot destructure property of undefined'')
      | Some t \<Rightarrow> Inr (map (\<lambda>text. (stderr t, text)) (stub_writes rt a)))"

section \<open>Context.extension and the extensions of the CLI constructor\<close>

text \<open>
  What can stand for an extension in \<^verbatim>\<open>params.extensions\<close>: an Extension instance, an
  object with \<^verbatim>\<open>name\<close> and \<^verbatim>\<open>path\<close>, a string, or anything else (a falsy value, a
  number, ...), which the Extension constructor refuses as a path.
  \<^verbatim>\<open>
  extension(ext, name) {
      if (ext instanceof Extension) {
          ext.parent = this;
      } else {
          if (ext && typeof ext === 'object') {
              name = ext.name;
              ext = ext.path;
          }
          ext = new Extension({ extensionPath: ext, name, parent: this });
      }
      return this.registerCommand(ext);
  }
  \<close>
\<close>

datatype ext_ref =
    Ext_instance extension
  | Ext_descriptor "string option" "string option"
  | Ext_path string
  | Ext_other

definition new_extension_params ::
  "'a context_state_scheme \<Rightarrow> string option \<Rightarrow> string option \<Rightarrow> params" where
  "new_extension_params this path ext_name =
     \<lparr>p_extensionPath = path, p_name = ext_name, p_parent = Some (as_context this),
      p_action = None, p_aliases = None, p_desc = None, p_banner = None, p_clikit = None,
      p_props = []\<rparr>"

definition extension ::
  "environment \<Rightarrow> 'a context_state_scheme \<Rightarrow> ext_ref \<Rightarrow> string option
     \<Rightarrow> error + 'a context_state_scheme" where
  "extension env this ext ext_name =
     (case ext of
        Ext_instance x \<Rightarrow> registerCommand this (Extension x)
      | _ \<Rightarrow>
          (case Extension_constructor env
                  (Some (case ext of
                           Ext_descriptor n path \<Rightarrow> new_extension_params this path n
                         | Ext_path path \<Rightarrow> new_extension_params this (Some path) ext_name
                         | _ \<Rightarrow> new_extension_params this None ext_name)) of
             Inl e \<Rightarrow> Inl e
           | Inr x \<Rightarrow> registerCommand this (Extension x)))"

text \<open>
  The state of a CLI object: a context with the fields the constructor assigns and
  \<^verbatim>\<open>exec\<close> reads. \<open>cli_log\<close> collects the arguments of the calls of \<^verbatim>\<open>warn\<close>.
\<close>

record cli = context_state +
  cli_appName :: "string option"
  cli_nodeVersion :: "string option"
  cli_help :: bool
  cli_defaultCommand :: "string option"
  cli_showHelpOnError :: "js_value option"
  cli_warnings :: "error list"
  cli_log :: "error list"

text \<open>
  The last statement of the CLI constructor (cli.js lines 181 to 202), so the constructor
  returns the object this statement leaves and throws what it throws.
  \<^verbatim>\<open>
  if (params.extensions) {
      if (Array.isArray(params.extensions)) {
          for (const ext of params.extensions) {
              try { this.extension(ext); }
              catch (e) { this.warnings.push(e); warn(e); }
          }
      } else {
          for (const [ name, ext ] of Object.entries(params.extensions)) {
              try { this.extension(ext, name); }
              catch (e) { this.warnings.push(e); warn(e); }
          }
      }
  }
  \<close>
  A statement either completes with the new state or throws; \<open>try_catch\<close> is the
  \<^verbatim>\<open>try\<close> statement and \<open>load_extensions\<close> the loop, over the pairs of the optional name
  and the extension.
\<close>

datatype extensions_param =
    No_extensions
  | Extension_array "ext_ref list"
  | Extension_object "(string \<times> ext_ref) list"

definition try_catch :: "error + 'a \<Rightarrow> (error \<Rightarrow> error + 'a) \<Rightarrow> error + 'a" where
  "try_catch body handler = (case body of Inl e \<Rightarrow> handler e | Inr v \<Rightarrow> Inr v)"

definition push_warning :: "cli \<Rightarrow> error \<Rightarrow> cli" where
  "push_warning this e =
     this\<lparr>cli_warnings := cli_warnings this @ [e], cli_log := cli_log this @ [e]\<rparr>"

fun load_extensions ::
  "environment \<Rightarrow> cli \<Rightarrow> (string option \<times> ext_ref) list \<Rightarrow> error + cli" where
  "load_extensions env this [] = Inr this"
| "load_extensions env this ((ext_name, ext) # rest) =
     (case try_catch (extension env this ext ext_name)
                     (\<lambda>e. Inr (push_warning this e)) of
        Inl e \<Rightarrow> Inl e
      | Inr this' \<Rightarrow> load_extensions env this' rest)"

definition CLI_constructor_extensions ::
  "environment \<Rightarrow> cli \<Rightarrow> extensions_param \<Rightarrow> error + cli" where
  "CLI_constructor_extensions env this extensions =
     (case extensions of
        No_extensions \<Rightarrow> Inr this
      | Extension_array exts \<Rightarrow> load_extensions env this (map (\<lambda>ext. (None, ext)) exts)
      | Extension_object exts \<Rightarrow>
          load_extensions env this (map (\<lambda>(n, ext). (Some n, ext)) exts))"

text \<open>
  The failures of the loads, in the words of the specification: the error of every
  extension whose load throws, in order, each load starting from the state the earlier
  ones left.
\<close>

fun load_failures ::
  "environment \<Rightarrow> cli \<Rightarrow> (string option \<times> ext_ref) list \<Rightarrow> error list" where
  "load_failures env this [] = []"
| "load_failures env this ((ext_name, ext) # rest) =
     (case extension env this ext ext_name of
        Inl e \<Rightarrow> e # load_failures env (push_warning this e) rest
      | Inr this' \<Rightarrow> load_failures env this' rest)"

definition named_extensions :: "extensions_param \<Rightarrow> (string option \<times> ext_ref) list" where
  "named_extensions extensions =
     (case extensions of
        No_extensions \<Rightarrow> []
      | Extension_array exts \<Rightarrow> map (\<lambda>ext. (None, ext)) exts
      | Extension_object exts \<Rightarrow> map (\<lambda>(n, ext). (Some n, ext)) exts)"


section \<open>CLI.exec\<close>

text \<open>
  The contexts the parser walks are the CLI itself and commands; \<^verbatim>\<open>contexts\<close> is an array
  of them, the context the parser ended on first. The array is shared: the parse result,
  the record \<^verbatim>\<open>results\<close> and the local variable \<^verbatim>\<open>contexts\<close> all refer to one array,
  which \<^verbatim>\<open>unshift\<close> changes in place. Arrays therefore live in a store and the records
  hold addresses. An element of an array may be \<^verbatim>\<open>undefined\<close> (\<open>None\<close>). Of the
  record \<^verbatim>\<open>results\<close> the field \<^verbatim>\<open>console\<close>, which is the console of the CLI and plays
  no part in the choice of the command, is left out; \<open>r_help\<close> is the command that the
  thunk \<^verbatim>\<open>results.help\<close> captures.
\<close>

datatype context_ref = This_CLI | Cmd cmd

type_synonym store = "nat \<Rightarrow> context_ref option list"

record parse_result =
  pr_positional :: "string list"
  pr_argv :: "(string \<times> js_value) list"
  pr_contexts :: nat
  pr_unknown :: "(string \<times> string) list"

record results =
  r_positional :: "string list"
  r_argv :: "(string \<times> js_value) list"
  r_contexts :: nat
  r_unknown :: "(string \<times> string) list"
  r_warnings :: "error list"
  r_help :: "context_ref option"

record error_report =
  e_contexts :: "context_ref option list"
  e_err :: error
  e_warnings :: "error list"

text \<open>
  The parser (parser/parser.js) is not among the sources: what \<^verbatim>\<open>parser.parse\<close> does is an
  input. It returns a parse result or throws an error, which may carry a \<^verbatim>\<open>contexts\<close>
  array; the parser object may have a \<^verbatim>\<open>contexts\<close> array of its own.
  \<open>in_satisfies r\<close> is \<^verbatim>\<open>semver.satisfies(process.version, r)\<close>, and
  \<open>in_unparsedArgs\<close> is \<open>None\<close> for a falsy argument and otherwise tells whether the
  argument is an array.
\<close>

datatype parse_outcome = Parsed parse_result | Parse_failed error "nat option"

record exec_input =
  in_satisfies :: "string \<Rightarrow> bool"
  in_version :: string
  in_clikitNodeVersion :: string
  in_unparsedArgs :: "bool option"
  in_parse :: parse_outcome
  in_parser_contexts :: "nat option"

text \<open>
  What \<^verbatim>\<open>exec\<close> ends with when it does not throw: the action of a command is called with
  \<^verbatim>\<open>results\<close> (and \<^verbatim>\<open>exec\<close> goes on with what the action returns), or \<^verbatim>\<open>results\<close> is
  returned, or the action of the help command is called with the report of an error. The
  store is the one at that moment.
\<close>

datatype outcome =
    Action_called cmd results store
  | Results_returned results store
  | Help_called_on_error cmd error_report

fun is_Command :: "context_ref option \<Rightarrow> bool" where
  "is_Command (Some (Cmd c)) = True"
| "is_Command c = False"

fun is_Extension :: "context_ref option \<Rightarrow> bool" where
  "is_Extension (Some (Cmd (Extension x))) = True"
| "is_Extension c = False"

fun is_clikit_extension :: "context_ref option \<Rightarrow> bool" where
  "is_clikit_extension (Some (Cmd (Extension x))) = isCLIKitExtension x"
| "is_clikit_extension c = False"

definition first_context :: "store \<Rightarrow> nat \<Rightarrow> context_ref option" where
  "first_context h a = (case h a of [] \<Rightarrow> None | c # cs \<Rightarrow> c)"

definition unshift :: "store \<Rightarrow> nat \<Rightarrow> context_ref option \<Rightarrow> store" where
  "unshift h a c = h(a := c # h a)"

text \<open>
  Lines 214 to 223, the check of the version of the runtime:
  \<^verbatim>\<open>
  let required = this.nodeVersion;
  if ((required && !semver.satisfies(version, required))
      || !semver.satisfies(version, required = clikitNodeVersion)) {
      throw E.INVALID_NODE_JS(`${this.appName || 'This application'} requires Node.js
          version is ${required}, currently ${version}`, ...);
  }
  \<close>
\<close>

definition node_version_error :: "cli \<Rightarrow> exec_input \<Rightarrow> error option" where
  "node_version_error this inp =
     (let app = (if nonempty (cli_appName this) then template (cli_appName this)
                 else ''This application'')
      in if nonempty (cli_nodeVersion this)
            \<and> \<not> in_satisfies inp (template (cli_nodeVersion this)) then
           Some (E INVALID_NODE_JS
                   (app @ '' requires Node.js version is '' @ template (cli_nodeVersion this)
                    @ '', currently '' @ in_version inp))
         else if \<not> in_satisfies inp (in_clikitNodeVersion inp) then
           Some (E INVALID_NODE_JS
                   (app @ '' requires Node.js version is '' @ in_clikitNodeVersion inp
                    @ '', currently '' @ in_version inp))
         else None)"

text \<open>
  Lines 233 and 251 to 261, the choice of the command:
  \<^verbatim>\<open>
  let cmd = contexts[0];
  ...
  if (this.help && argv.help && (!(cmd instanceof Extension) || cmd.isCLIKitExtension)) {
      cmd = this.commands.get('help');
      contexts.unshift(cmd);
  } else if (!(cmd instanceof Command) && this.defaultCommand
             && this.commands.has(this.defaultCommand)) {
      cmd = this.commands.get(this.defaultCommand);
      contexts.unshift(cmd);
  }
  \<close>
\<close>

definition select_command :: "cli \<Rightarrow> parse_result \<Rightarrow> store \<Rightarrow> context_ref option \<times> store" where
  "select_command this pr h =
     (let contexts = pr_contexts pr;
          cmd = first_context h contexts
      in if cli_help this \<and> truthy (map_of (pr_argv pr) ''help'')
            \<and> (\<not> is_Extension cmd \<or> is_clikit_extension cmd) then
           let cmd1 = map_option Cmd (commands_get (commands this) ''help'')
           in (cmd1, unshift h contexts cmd1)
         else if \<not> is_Command cmd \<and> nonempty (cli_defaultCommand this)
                 \<and> commands_has (commands this) (template (cli_defaultCommand this)) then
           let cmd1 = map_option Cmd
                        (commands_get (commands this) (template (cli_defaultCommand this)))
           in (cmd1, unshift h contexts cmd1)
         else (cmd, h))"

text \<open>
  The body of the \<^verbatim>\<open>try\<close> after the parse (lines 233 to 290). \<^verbatim>\<open>results\<close> is built
  before the command is chosen and holds the address of \<^verbatim>\<open>contexts\<close>. Reading
  \<^verbatim>\<open>cmd.banner\<close> (line 264) throws a TypeError when \<^verbatim>\<open>cmd\<close> is undefined. The banner
  (lines 264 to 279) only subscribes to the output streams and is left out; a banner
  function of the application is taken to return. The CLI class defines no \<^verbatim>\<open>action\<close>,
  so \<^verbatim>\<open>typeof cmd.action === 'function'\<close> fails when \<^verbatim>\<open>cmd\<close> is the CLI itself.
  \<^verbatim>\<open>
  const results = { _, argv, console: this.console, contexts, unknown,
                    warnings: this.warnings };
  ... the choice of the command ...
  let banner = cmd.banner || this.get('banner');
  ...
  results.help = () => renderHelp(cmd);
  if (cmd && typeof cmd.action === 'function') {
      return await cmd.action(results);
  }
  return results;
  \<close>
  An error comes with the store it leaves.
\<close>

definition dispatch :: "cli \<Rightarrow> parse_result \<Rightarrow> store \<Rightarrow> (error \<times> store) + outcome" where
  "dispatch this pr h =
     (let results0 = \<lparr>r_positional = pr_positional pr, r_argv = pr_argv pr,
                      r_contexts = pr_contexts pr, r_unknown = pr_unknown pr,
                      r_warnings = cli_warnings this, r_help = None\<rparr>;
          (cmd, h1) = select_command this pr h
      in case cmd of
           None \<Rightarrow> Inl (RuntimeTypeError ''Cannot read property banner of undefined'', h1)
         | Some This_CLI \<Rightarrow> Inr (Results_returned (results0\<lparr>r_help := cmd\<rparr>) h1)
         | Some (Cmd c) \<Rightarrow>
             (case action_of c of
                Some a \<Rightarrow> Inr (Action_called c (results0\<lparr>r_help := cmd\<rparr>) h1)
              | None \<Rightarrow> Inr (Results_returned (results0\<lparr>r_help := cmd\<rparr>) h1)))"

text \<open>
  The \<^verbatim>\<open>catch\<close> clause (lines 291 to 303):
  \<^verbatim>\<open>
  const help = this.help && this.showHelpOnError !== false && this.commands.get('help');
  if (help) {
      return await help.action({
          contexts: err.contexts || parser.contexts || [ this ], err,
          warnings: this.warnings });
  }
  throw err;
  \<close>
\<close>

definition on_error ::
  "cli \<Rightarrow> exec_input \<Rightarrow> store \<Rightarrow> error \<Rightarrow> nat option \<Rightarrow> error + outcome" where
  "on_error this inp h err err_contexts =
     (if cli_help this \<and> cli_showHelpOnError this \<noteq> Some (JBool False) then
        (case commands_get (commands this) ''help'' of
           None \<Rightarrow> Inl err
         | Some help \<Rightarrow>
             (case action_of help of
                None \<Rightarrow> Inl (RuntimeTypeError ''help.action is not a function'')
              | Some a \<Rightarrow>
                  Inr (Help_called_on_error help
                         \<lparr>e_contexts =
                            (case err_contexts of
                               Some a \<Rightarrow> h a
                             | None \<Rightarrow>
                                 (case in_parser_contexts inp of
                                    Some a \<Rightarrow> h a
                                  | None \<Rightarrow> [Some This_CLI])),
                          e_err = err,
                          e_warnings = cli_warnings this\<rparr>)))
      else Inl err)"

text \<open>
  \<^verbatim>\<open>exec\<close> as a whole (\<open>CLI_exec\<close>): the two checks before the \<^verbatim>\<open>try\<close>, the parse, the
  body and the \<^verbatim>\<open>catch\<close> clause.
  \<^verbatim>\<open>
  if (unparsedArgs && !Array.isArray(unparsedArgs)) {
      throw E.INVALID_ARGUMENT('Expected arguments to be an array', ...);
  }
  const parser = new Parser();
  try {
      const { _, argv, contexts, unknown } = await parser.parse(..., this);
      ...
  } catch (err) { ... }
  \<close>
\<close>

definition CLI_exec :: "cli \<Rightarrow> exec_input \<Rightarrow> store \<Rightarrow> error + outcome" where
  "CLI_exec this inp h =
     (case node_version_error this inp of
        Some e \<Rightarrow> Inl e
      | None \<Rightarrow>
          if in_unparsedArgs inp = Some False then
            Inl (E INVALID_ARGUMENT ''Expected arguments to be an array'')
          else
            (case in_parse inp of
               Parse_failed err err_contexts \<Rightarrow> on_error this inp h err err_contexts
             | Parsed pr \<Rightarrow>
                 (case dispatch this pr h of
                    Inr out \<Rightarrow> Inr out
                  | Inl (err, h1) \<Rightarrow> on_error this inp h1 err None)))"

subsection \<open>The choice of the command, in the words of the specification\<close>

text \<open>
  \<open>ready\<close>: the two checks before the parse pass. \<open>help_requested\<close>: help is enabled, the
  help flag was parsed, and the context the parser ended on is not an Extension that is
  not a cli-kit extension. \<open>default_registered\<close>: the command that the default command
  names, if the CLI has a default command and a command of that name is registered.
  \<open>selects r c\<close>: the command \<open>c\<close> is the one \<^verbatim>\<open>exec\<close> ends with; its action is called
  when it has one, and otherwise the results are returned with \<open>c\<close> as the command of the
  help thunk. \<open>returns_parse_result\<close>: no command is chosen and the results, which are
  the fields of the parse result, are returned with the array of contexts as it was.
\<close>

definition ready :: "cli \<Rightarrow> exec_input \<Rightarrow> bool" where
  "ready this inp = (node_version_error this inp = None \<and> in_unparsedArgs inp \<noteq> Some False)"

definition help_requested :: "cli \<Rightarrow> parse_result \<Rightarrow> context_ref \<Rightarrow> bool" where
  "help_requested this pr terminal =
     (cli_help this \<and> truthy (map_of (pr_argv pr) ''help'')
      \<and> \<not> (is_Extension (Some terminal) \<and> \<not> is_clikit_extension (Some terminal)))"

definition default_registered :: "cli \<Rightarrow> cmd option" where
  "default_registered this =
     (case cli_defaultCommand this of
        None \<Rightarrow> None
      | Some d \<Rightarrow> if d = [] then None else commands_get (commands this) d)"

definition selects :: "error + outcome \<Rightarrow> cmd \<Rightarrow> bool" where
  "selects r c =
     (case r of
        Inr (Action_called c1 res h1) \<Rightarrow>
          c1 = c \<and> action_of c \<noteq> None \<and> r_help res = Some (Cmd c)
      | Inr (Results_returned res h1) \<Rightarrow> action_of c = None \<and> r_help res = Some (Cmd c)
      | _ \<Rightarrow> False)"

definition returns_parse_result :: "error + outcome \<Rightarrow> cli \<Rightarrow> parse_result \<Rightarrow> store \<Rightarrow> bool" where
  "returns_parse_result r this pr h =
     (case r of
        Inr (Results_returned res h1) \<Rightarrow>
          h1 = h
          \<and> res = \<lparr>r_positional = pr_positional pr, r_argv = pr_argv pr,
                   r_contexts = pr_contexts pr, r_unknown = pr_unknown pr,
                   r_warnings = cli_warnings this, r_help = Some This_CLI\<rparr>
      | _ \<Rightarrow> False)"

text \<open>
  \<open>replaces_terminal\<close>: the help command or the default command is chosen in place of
  the context the parser ended on.
\<close>

definition replaces_terminal :: "cli \<Rightarrow> parse_result \<Rightarrow> context_ref \<Rightarrow> bool" where
  "replaces_terminal this pr terminal =
     (help_requested this pr terminal
      \<or> (terminal = This_CLI \<and> default_registered this \<noteq> None))"

section \<open>Concrete inputs\<close>

definition example_root :: "nat context" where
  "example_root = Context (\<lambda>k. if k = ''banner'' then Some 1 else None) None"

definition example_command :: "nat context" where
  "example_command =
     Context (\<lambda>k. if k = ''banner'' then Some 2 else None) (Some example_root)"

definition example_subcommand :: "nat context" where
  "example_subcommand = Context (\<lambda>k. None) (Some example_command)"


definition example_build :: cmd where
  "example_build =
     Command \<lparr>cmd_name = ''build'', cmd_aliases = None, cmd_action = Some (UserAction 1),
              cmd_desc = None\<rparr>"

definition example_build_again :: cmd where
  "example_build_again =
     Command \<lparr>cmd_name = ''build'', cmd_aliases = Some [(''b'', True)],
              cmd_action = Some (UserAction 2), cmd_desc = None\<rparr>"

definition example_make :: cmd where
  "example_make =
     Command \<lparr>cmd_name = ''make'', cmd_aliases = Some [(''build'', True), (''mk'', True)],
              cmd_action = Some (UserAction 3), cmd_desc = None\<rparr>"

definition example_context :: context_state where
  "example_context =
     \<lparr>commands = [''build'' \<mapsto> example_build],
      lookup_commands = [''build'' \<mapsto> example_build],
      own_props = (\<lambda>k. None),
      parent_ctx = None\<rparr>"

definition example_terminal :: terminal where
  "example_terminal = \<lparr>stdin = 0, stdout = 1, stderr = 2\<rparr>"

definition example_executable_extension :: extension where
  "example_executable_extension =
     \<lparr>cmd_name = ''true'', cmd_aliases = None, cmd_action = Some RunExecutable,
      cmd_desc = None, executable = Some ''/usr/bin/true'', execArgs = [],
      isCLIKitExtension = False, pkg = None, version_override = True,
      banner = None, ext_context = Context (\<lambda>k. None) None\<rparr>"

definition example_stub_extension :: extension where
  "example_stub_extension =
     \<lparr>cmd_name = ''gone'', cmd_aliases = None,
      cmd_action = Some (MissingExtensionStub ''./gone''),
      cmd_desc = None, executable = None, execArgs = [],
      isCLIKitExtension = False, pkg = None, version_override = True,
      banner = None, ext_context = Context (\<lambda>k. None) None\<rparr>"

definition example_plugin_context :: params where
  "example_plugin_context =
     \<lparr>p_extensionPath = None, p_name = Some ''plugin'', p_parent = None,
      p_action = Some (UserAction 7), p_aliases = None, p_desc = None,
      p_banner = Some (JStr ''Plugin 1.0''),
      p_clikit = Some [''Context'', ''Command''],
      p_props = [(''title'', JStr ''Plugin''), (''options'', JObj 3)]\<rparr>"

definition example_broken_context :: params where
  "example_broken_context =
     \<lparr>p_extensionPath = None, p_name = Some ''broken'', p_parent = None,
      p_action = Some (UserAction 8), p_aliases = None, p_desc = None, p_banner = None,
      p_clikit = Some [''Context'', ''Command''],
      p_props = [(''args'', JStr ''file'')]\<rparr>"

definition example_plain_object :: params where
  "example_plain_object =
     \<lparr>p_extensionPath = None, p_name = None, p_parent = None,
      p_action = None, p_aliases = None, p_desc = None, p_banner = None,
      p_clikit = None, p_props = [(''answer'', JNum 42)]\<rparr>"

definition example_manifest :: "string \<Rightarrow> package_json" where
  "example_manifest n =
     \<lparr>json_name = Some n, json_aliases = None, json_bin = None, json_description = None\<rparr>"

definition example_environment :: environment where
  "example_environment =
     \<lparr>which_sync = (\<lambda>p. if p = ''git'' then Some ''/usr/bin/git'' else None),
      existsSync = (\<lambda>p. p \<in> set [''./plugin'', ''./broken'', ''./plain'', ''./bad'',
                                 ''./script'']),
      findPackage = (\<lambda>p.
         if p = ''./script''
         then Inr \<lparr>pkg_clikit = False, pkg_json = example_manifest ''script'',
                   pkg_main = Some ''./script/main.js''\<rparr>
         else Inr \<lparr>pkg_clikit = True, pkg_json = example_manifest (drop 2 p),
                   pkg_main = Some (p @ ''/index.js'')\<rparr>),
      require = (\<lambda>m.
         if m = ''./plugin/index.js'' then Inr (Object False NotAnObject example_plugin_context)
         else if m = ''./broken/index.js''
           then Inr (Object False NotAnObject example_broken_context)
         else if m = ''./plain/index.js'' then Inr (Object False NotAnObject example_plain_object)
         else Inl (Foreign ''Cannot find module'')),
      basename = (\<lambda>p. if take 2 p = ''./'' then drop 2 p else p),
      execPath = ''/usr/bin/node'',
      contents_error = (\<lambda>props clikit par. None)\<rparr>"

definition example_lenient_parent :: "js_value context" where
  "example_lenient_parent =
     Context (map_of [(''ignoreInvalidExtensions'', JBool True),
                      (''ignoreMissingExtensions'', JBool True)]) None"

definition example_strict_parent :: "js_value context" where
  "example_strict_parent =
     Context (map_of [(''ignoreInvalidExtensions'', JBool False)]) None"

definition example_params :: "string \<Rightarrow> js_value context \<Rightarrow> params" where
  "example_params path par =
     \<lparr>p_extensionPath = Some path, p_name = None, p_parent = Some par,
      p_action = None, p_aliases = None, p_desc = None, p_banner = None,
      p_clikit = None, p_props = []\<rparr>"

definition example_help :: cmd where
  "example_help =
     Command \<lparr>cmd_name = ''help'', cmd_aliases = None, cmd_action = Some (UserAction 0),
              cmd_desc = None\<rparr>"

definition example_cli :: cli where
  "example_cli =
     \<lparr>commands = [''help'' \<mapsto> example_help, ''build'' \<mapsto> example_build],
      lookup_commands = [''help'' \<mapsto> example_help, ''build'' \<mapsto> example_build],
      own_props = (\<lambda>k. None),
      parent_ctx = None,
      cli_appName = Some ''tool'', cli_nodeVersion = None, cli_help = True,
      cli_defaultCommand = Some ''help'', cli_showHelpOnError = None,
      cli_warnings = [], cli_log = []\<rparr>"

definition example_cli_without_default :: cli where
  "example_cli_without_default =
     \<lparr>commands = [''build'' \<mapsto> example_build],
      lookup_commands = [''build'' \<mapsto> example_build],
      own_props = map_of [(''ignoreInvalidExtensions'', JBool False)],
      parent_ctx = None,
      cli_appName = Some ''tool'', cli_nodeVersion = None, cli_help = False,
      cli_defaultCommand = Some ''deploy'', cli_showHelpOnError = None,
      cli_warnings = [], cli_log = []\<rparr>"

definition example_parse :: "(string \<times> js_value) list \<Rightarrow> parse_result" where
  "example_parse argv =
     \<lparr>pr_positional = [], pr_argv = argv, pr_contexts = 0, pr_unknown = []\<rparr>"

definition example_input :: "(string \<times> js_value) list \<Rightarrow> exec_input" where
  "example_input argv =
     \<lparr>in_satisfies = (\<lambda>range. True), in_version = ''v10.15.0'',
      in_clikitNodeVersion = ''>=8.10.0'', in_unparsedArgs = Some True,
      in_parse = Parsed (example_parse argv), in_parser_contexts = Some 0\<rparr>"

definition example_store :: "context_ref list \<Rightarrow> store" where
  "example_store contexts = (\<lambda>a. if a = 0 then map Some contexts else [])"

definition example_git_extension :: extension where
  "example_git_extension =
     \<lparr>cmd_name = ''git'', cmd_aliases = None, cmd_action = Some RunExecutable,
      cmd_desc = None, executable = Some ''/usr/bin/git'', execArgs = [],
      isCLIKitExtension = False, pkg = None, version_override = True,
      banner = None,
      ext_context = Context (\<lambda>k. None) (Some (as_context example_cli))\<rparr>"

section \<open>Properties of the scoped property reads\<close>

lemma chain_unfold: "chain c = c # chain_from (parent c)"
  by (cases c rule: chain.cases) (simp_all add: chain_from_def)

lemma chain_from_simps [simp]:
  "chain_from None = []"
  "chain_from (Some p) = p # chain_from (parent p)"
  by (simp add: chain_from_def, simp add: chain_from_def chain_unfold [of p])

lemma last_defined_Nil [simp]: "last_defined [] name val = val"
  by (simp add: last_defined_def)

lemma last_defined_Cons:
  "last_defined (c # cs) name val = last_defined cs name (or_default (own c name) val)"
  by (cases "own c name"; cases "List.map_filter (\<lambda>x. own x name) cs")
     (simp_all add: last_defined_def or_default_def)

lemma first_defined_Nil [simp]: "first_defined [] name val = val"
  by (simp add: first_defined_def)

lemma first_defined_Cons:
  "first_defined (c # cs) name val =
     (case own c name of Some v \<Rightarrow> Some v | None \<Rightarrow> first_defined cs name val)"
  by (cases "own c name") (simp_all add: first_defined_def)

lemma or_default_last_defined:
  "or_default (last_defined cs name val) d = last_defined cs name (or_default val d)"
  by (cases val; cases "List.map_filter (\<lambda>x. own x name) cs")
     (simp_all add: last_defined_def or_default_def)

lemma get_and_loop_last_defined:
  "get (c :: 'v context) name d = last_defined (chain c) name d"
  "get_loop (po :: 'v context option) name val = last_defined (chain_from po) name val"
proof (induction c name d and po name val rule: get_get_loop.induct)
  case (1 this name defaultValue)
  have "get this name defaultValue
          = or_default (last_defined (chain_from (parent this)) name (own this name)) defaultValue"
    using 1 by (simp add: or_default_def)
  also have "\<dots> = last_defined (chain this) name defaultValue"
    by (simp add: or_default_last_defined chain_unfold [of this] last_defined_Cons)
  finally show ?case .
next
  case (2 name val)
  show ?case by simp
next
  case (3 p name val)
  have "get_loop (Some p) name val
          = last_defined (chain_from (parent p)) name (last_defined (chain p) name val)"
    using 3 by simp
  also have "\<dots> = last_defined (chain_from (Some p)) name val"
  proof (cases "List.map_filter (\<lambda>x. own x name) (chain_from (parent p))")
    case Nil
    then show ?thesis
      by (cases "own p name")
         (simp_all add: last_defined_def chain_unfold [of p])
  next
    case (Cons v vs)
    then show ?thesis
      by (cases "own p name")
         (simp_all add: last_defined_def chain_unfold [of p])
  qed
  finally show ?case .
qed

lemma prop_and_loop_first_defined:
  "prop' (c :: 'v context) name d = first_defined (chain c) name d"
  "prop_loop (po :: 'v context option) name val =
     (case val of Some v \<Rightarrow> Some v | None \<Rightarrow> first_defined (chain_from po) name None)"
proof (induction c name d and po name val rule: prop'_prop_loop.induct)
  case (1 this name defaultValue)
  show ?case
  proof (cases "own this name")
    case None
    then show ?thesis
      using 1
      by (cases "List.map_filter (\<lambda>x. own x name) (chain_from (parent this))")
         (simp_all add: first_defined_def chain_unfold [of this])
  next
    case (Some v)
    then show ?thesis
      using 1 by (simp add: first_defined_def chain_unfold [of this])
  qed
next
  case (2 name val)
  show ?case by (cases val) simp_all
next
  case (3 p name val)
  show ?case
  proof (cases val)
    case None
    then show ?thesis
      using 3
      by (cases "own p name")
         (simp_all add: first_defined_def chain_unfold [of p]
                   split: list.splits)
  next
    case (Some v)
    then show ?thesis by simp
  qed
qed

lemma defined_values_empty_iff:
  "defined_values c name = [] \<longleftrightarrow> (\<forall>x \<in> set (chain c). own x name = None)"
  by (simp add: defined_values_def map_filter_def filter_empty_conv)

text \<open>
  Claim C3. For every context and property name, \<open>get\<close> returns the topmost value of the
  parent chain that is not undefined (the one closest to the root, so a root declaration
  wins over a local one), \<open>prop\<close> returns the bottom-most one (the most local), and both
  return the supplied default exactly when no context of the chain defines the property.
\<close>

theorem get_topmost_prop_bottommost:
  "get c name d = or_default (topmost_value c name) d
   \<and> prop' c name d = or_default (bottommost_value c name) d
   \<and> ((topmost_value c name = None) = (\<forall>x \<in> set (chain c). own x name = None))
   \<and> ((bottommost_value c name = None) = (\<forall>x \<in> set (chain c). own x name = None))"
proof (intro conjI)
  show "get c name d = or_default (topmost_value c name) d"
    by (simp add: get_and_loop_last_defined(1) last_defined_def topmost_value_def
                  defined_values_def or_default_def del: get.simps split: list.splits)
  show "prop' c name d = or_default (bottommost_value c name) d"
    by (simp add: prop_and_loop_first_defined(1) first_defined_def bottommost_value_def
                  defined_values_def or_default_def del: prop'.simps split: list.splits)
  show "(topmost_value c name = None) = (\<forall>x \<in> set (chain c). own x name = None)"
    using defined_values_empty_iff [of c name]
    by (cases "defined_values c name") (simp_all add: topmost_value_def)
  show "(bottommost_value c name = None) = (\<forall>x \<in> set (chain c). own x name = None)"
    using defined_values_empty_iff [of c name]
    by (cases "defined_values c name") (simp_all add: bottommost_value_def)
qed

theorem get_topmost_prop_bottommost_witness:
  "get example_subcommand ''banner'' (Some 0) = Some 1
   \<and> prop' example_subcommand ''banner'' (Some 0) = Some 2
   \<and> get example_subcommand ''title'' (Some 0) = Some 0
   \<and> prop' example_subcommand ''title'' (Some 0) = Some 0
   \<and> topmost_value example_subcommand ''banner'' = Some 1
   \<and> bottommost_value example_subcommand ''banner'' = Some 2
   \<and> topmost_value example_subcommand ''title'' = None
   \<and> bottommost_value example_subcommand ''title'' = None"
  using get_topmost_prop_bottommost [of example_subcommand "''banner''" "Some 0"]
        get_topmost_prop_bottommost [of example_subcommand "''title''" "Some 0"]
  by (simp add: example_subcommand_def example_command_def example_root_def
                topmost_value_def bottommost_value_def defined_values_def or_default_def)


section \<open>Properties of Context.registerCommand\<close>

lemma register_aliases_commands [simp]:
  "commands (register_aliases c ks st) = commands st"
  by (induction ks arbitrary: st) simp_all

lemma register_aliases_lookup:
  "lookup_commands (register_aliases c ks st) k =
     (if k \<in> set ks \<and> \<not> commands_has (commands st) k then Some c
      else lookup_commands st k)"
  by (induction ks arbitrary: st) auto

text \<open>
  Claim C5. Registering a command whose name is already the name of a registered command
  fails with ALREADY_EXISTS. Otherwise the registration succeeds, the command is stored
  and looked up under its name, and an alias of the new command that is the name of a
  command registered before is dropped without an error: the lookup entry of that name
  is the one it was, while every other alias leads to the new command.
\<close>

theorem registerCommand_refuses_duplicates_and_drops_colliding_aliases:
  "(commands_has (commands this) (name_of c) \<longrightarrow>
      (\<exists>msg. registerCommand this c = Inl (E ALREADY_EXISTS msg)))
   \<and> (\<not> commands_has (commands this) (name_of c) \<longrightarrow>
      (\<exists>st. registerCommand this c = Inr st
         \<and> commands st = commands_add (commands this) c
         \<and> lookup_commands st (name_of c) = Some c
         \<and> (\<forall>alias \<in> set (alias_keys c).
               commands_has (commands this) alias \<longrightarrow>
                 lookup_commands st alias = lookup_commands this alias
                 \<and> commands st alias = commands this alias)
         \<and> (\<forall>alias \<in> set (alias_keys c).
               \<not> commands_has (commands this) alias \<longrightarrow>
                 lookup_commands st alias = Some c)))"
proof (intro conjI impI)
  assume "commands_has (commands this) (name_of c)"
  then show "\<exists>msg. registerCommand this c = Inl (E ALREADY_EXISTS msg)"
    by (simp add: registerCommand_def)
next
  assume fresh: "\<not> commands_has (commands this) (name_of c)"
  show "\<exists>st. registerCommand this c = Inr st
         \<and> commands st = commands_add (commands this) c
         \<and> lookup_commands st (name_of c) = Some c
         \<and> (\<forall>alias \<in> set (alias_keys c).
               commands_has (commands this) alias \<longrightarrow>
                 lookup_commands st alias = lookup_commands this alias
                 \<and> commands st alias = commands this alias)
         \<and> (\<forall>alias \<in> set (alias_keys c).
               \<not> commands_has (commands this) alias \<longrightarrow>
                 lookup_commands st alias = Some c)"
  proof (cases "aliases_of c")
    case None
    then show ?thesis
      using fresh by (simp add: registerCommand_def alias_keys_def Let_def)
  next
    case (Some al)
    then show ?thesis
      using fresh
      by (auto simp: registerCommand_def alias_keys_def Let_def register_aliases_lookup
                     commands_has_def commands_add_def)
  qed
qed

theorem registerCommand_refuses_duplicates_and_drops_colliding_aliases_witness:
  "(\<exists>msg. registerCommand example_context example_build_again = Inl (E ALREADY_EXISTS msg))
   \<and> commands_has (commands example_context) ''build''
   \<and> \<not> commands_has (commands example_context) ''make''
   \<and> (\<exists>st. registerCommand example_context example_make = Inr st
        \<and> lookup_commands st ''make'' = Some example_make
        \<and> lookup_commands st ''build'' = Some example_build
        \<and> commands st ''build'' = Some example_build
        \<and> lookup_commands st ''mk'' = Some example_make)"
  using registerCommand_refuses_duplicates_and_drops_colliding_aliases
          [of example_context example_build_again]
        registerCommand_refuses_duplicates_and_drops_colliding_aliases
          [of example_context example_make]
  by (auto simp: example_context_def example_make_def example_build_def
                 example_build_again_def commands_has_def alias_keys_def)

section \<open>Properties of the Extension constructor\<close>

lemma Context_constructor_cases:
  "Context_constructor env params = Inr ctx \<longleftrightarrow>
     accepted env params \<and> ctx = own_context params"
  by (auto simp: Context_constructor_def accepted_def split: option.splits)

lemma own_context_p_action [simp]:
  "own_context (params\<lparr>p_action := a\<rparr>) = own_context params"
  by (simp add: own_context_def)

lemma own_context_apply_manifest [simp]:
  "own_context (apply_manifest params name json) = own_context params"
  by (simp add: apply_manifest_def own_context_def Let_def)

lemma own_context_sel:
  "own (own_context params)
     = map_of (copied_properties (ignoreOut_of (p_clikit params)) (p_props params))"
  "parent (own_context params) = p_parent params"
  by (simp_all add: own_context_def)

lemma Context_constructor_p_action [simp]:
  "Context_constructor env (params\<lparr>p_action := a\<rparr>) = Context_constructor env params"
  by (simp add: Context_constructor_def Context_checks_def declares_contents_def
                compatible_def
           split: option.splits)

lemma Context_constructor_apply_manifest [simp]:
  "Context_constructor env (apply_manifest params name json)
     = Context_constructor env params"
  by (simp add: apply_manifest_def Let_def)
     (simp add: Context_constructor_def Context_checks_def own_context_def
                declares_contents_def compatible_def
           split: option.splits)

lemma accepted_p_action [simp]:
  "accepted env (params\<lparr>p_action := a\<rparr>) = accepted env params"
  by (simp add: accepted_def)

lemma accepted_apply_manifest [simp]:
  "accepted env (apply_manifest params name json) = accepted env params"
  by (simp add: accepted_def)

lemma ignoreMissingExtensions_p_action [simp]:
  "ignoreMissingExtensions (params\<lparr>p_action := a\<rparr>) = ignoreMissingExtensions params"
  by (simp add: ignoreMissingExtensions_def)

lemma p_action_apply_manifest [simp]:
  "p_action (apply_manifest params name json) = p_action params"
  by (simp add: apply_manifest_def Let_def)

lemma p_banner_apply_manifest [simp]:
  "p_banner (apply_manifest params name json) = p_banner params"
  by (simp add: apply_manifest_def Let_def)

lemma finish_accepted:
  "accepted env (l_params l) \<Longrightarrow>
   finish env path l =
     (let this = \<lparr>cmd_name = (if l_name l \<noteq> [] then l_name l else basename env path),
                  cmd_aliases = visible_aliases (p_aliases (l_params l)),
                  cmd_action = p_action (l_params l),
                  cmd_desc = p_desc (l_params l),
                  executable = l_executable l,
                  execArgs = [],
                  isCLIKitExtension = l_isCLIKitExtension l,
                  pkg = l_pkg l,
                  version_override = (\<not> l_isCLIKitExtension l),
                  banner = p_banner (l_params l),
                  ext_context = own_context (l_params l)\<rparr>
      in if l_isCLIKitExtension l then Inr this
         else if l_pkg l \<noteq> None then
           Inr (this\<lparr>executable := Some (execPath env), execArgs := [path],
                     cmd_action := Some RunExecutable\<rparr>)
         else if nonempty (l_executable l) then Inr this
         else if ignoreMissingExtensions (l_params l) then
           Inr (this\<lparr>cmd_action := Some (MissingExtensionStub path)\<rparr>)
         else Inl (E INVALID_EXTENSION (''Extension not found: '' @ path)))"
proof -
  assume "accepted env (l_params l)"
  then have "Context_constructor env (l_params l) = Inr (own_context (l_params l))"
    by (simp add: Context_constructor_cases)
  then show ?thesis
    by (simp add: finish_def Command_constructor_def ignoreMissingExtensions_def Let_def)
qed

lemma finish_refused:
  "Context_constructor env (l_params l) = Inl e \<Longrightarrow> finish env path l = Inl e"
  by (simp add: finish_def Command_constructor_def Let_def)

lemma Extension_constructor_valid_path:
  "p_extensionPath params = Some path \<Longrightarrow> path \<noteq> [] \<Longrightarrow>
   Extension_constructor env (Some params) =
     (case resolve env params path (trim (case p_name params of None \<Rightarrow> [] | Some n \<Rightarrow> n)) of
        Inl e \<Rightarrow> Inl e
      | Inr l \<Rightarrow> finish env path l)"
  by (simp add: Extension_constructor_def)

lemma on_path:
  assumes "p_extensionPath params = Some path" "path \<noteq> []" "accepted env params"
    and "which_sync env path = Some exe" "exe \<noteq> []"
  shows "executable_variant (Extension_constructor env (Some params)) exe []"
proof -
  let ?l = "\<lparr>l_params = params\<lparr>p_action := Some RunExecutable\<rparr>,
             l_name = trim (case p_name params of None \<Rightarrow> [] | Some n \<Rightarrow> n),
             l_executable = Some exe, l_pkg = None, l_isCLIKitExtension = False\<rparr>"
  have "accepted env (l_params ?l)"
    using assms(3) by simp
  then show ?thesis
    using assms
    by (simp add: Extension_constructor_valid_path resolve_def finish_accepted
                  executable_variant_def nonempty_def Let_def)
qed

lemma missing_path:
  assumes "p_extensionPath params = Some path" "path \<noteq> []" "accepted env params"
    and "which_sync env path = None" "\<not> existsSync env path"
  shows "if ignoreMissingExtensions params
         then invalid_stub (Extension_constructor env (Some params))
                (MissingExtensionStub path)
              \<and> (case Extension_constructor env (Some params) of
                    Inl e \<Rightarrow> False | Inr x \<Rightarrow> \<not> isCLIKitExtension x)
         else fails_with (Extension_constructor env (Some params)) INVALID_EXTENSION"
  using assms
  by (simp add: Extension_constructor_valid_path resolve_def finish_accepted
                invalid_stub_def fails_with_def nonempty_def Let_def)

lemma package_fails:
  assumes "p_extensionPath params = Some path" "path \<noteq> []"
    and "which_sync env path = None" "existsSync env path"
    and "findPackage env path = Inl e"
  shows "Extension_constructor env (Some params) = Inl e"
  using assms by (simp add: Extension_constructor_valid_path resolve_def)

lemma no_main:
  assumes "p_extensionPath params = Some path" "path \<noteq> []"
    and "which_sync env path = None" "existsSync env path"
    and "findPackage env path = Inr pk" "\<not> nonempty (pkg_main pk)"
  shows "fails_with (Extension_constructor env (Some params)) INVALID_EXTENSION"
  using assms
  by (auto simp: Extension_constructor_valid_path resolve_def fails_with_def nonempty_def
           split: option.splits)

lemma on_disk:
  assumes "p_extensionPath params = Some path" "path \<noteq> []"
    and "which_sync env path = None" "existsSync env path"
    and "findPackage env path = Inr pk" "pkg_main pk = Some main" "main \<noteq> []"
  shows "Extension_constructor env (Some params) =
           (case (if pkg_clikit pk then load_clikit_package env params path pk main
                  else Inr (params, False)) of
              Inl e \<Rightarrow> Inl e
            | Inr (params1, isCLIKit) \<Rightarrow>
                finish env path
                  \<lparr>l_params = apply_manifest params1
                      (if trim (case p_name params of None \<Rightarrow> [] | Some n \<Rightarrow> n) = []
                       then trim (case json_name (pkg_json pk) of None \<Rightarrow> [] | Some n \<Rightarrow> n)
                       else trim (case p_name params of None \<Rightarrow> [] | Some n \<Rightarrow> n))
                      (pkg_json pk),
                   l_name =
                      (if trim (case p_name params of None \<Rightarrow> [] | Some n \<Rightarrow> n) = []
                       then trim (case json_name (pkg_json pk) of None \<Rightarrow> [] | Some n \<Rightarrow> n)
                       else trim (case p_name params of None \<Rightarrow> [] | Some n \<Rightarrow> n)),
                   l_executable = None,
                   l_pkg = Some (with_pushed_aliases pk
                             (manifest_aliases params1
                      (if trim (case p_name params of None \<Rightarrow> [] | Some n \<Rightarrow> n) = []
                       then trim (case json_name (pkg_json pk) of None \<Rightarrow> [] | Some n \<Rightarrow> n)
                       else trim (case p_name params of None \<Rightarrow> [] | Some n \<Rightarrow> n))
                      (pkg_json pk))),
                   l_isCLIKitExtension = isCLIKit\<rparr>)"
  using assms
  by (simp add: Extension_constructor_valid_path resolve_def Let_def
           split: sum.splits prod.splits)

lemma load_clikit_package_cases:
  "load_clikit_package env params path pk main =
     (case load_result_of env main of
        Loaded_object loaded \<Rightarrow>
          if compatible loaded then Inr (loaded\<lparr>p_parent := p_parent params\<rparr>, True)
          else Inr (params, False)
      | Load_error e \<Rightarrow>
          if ignoreInvalidExtensions params
          then Inr (params\<lparr>p_action :=
                      Some (BadExtensionStub (json_name (pkg_json pk)) (Some e))\<rparr>, True)
          else Inl (E INVALID_EXTENSION
                      (''Bad extension \"'' @ template (json_name (pkg_json pk))
                       @ ''\": '' @ message_of e))
      | Loaded_other \<Rightarrow>
          if ignoreInvalidExtensions params
          then Inr (params\<lparr>p_action :=
                      Some (BadExtensionStub (json_name (pkg_json pk)) None)\<rparr>, True)
          else Inl (E INVALID_EXTENSION
                      (''Extension does not export an object: '' @ path)))"
  by (simp add: load_clikit_package_def load_result_of_def Let_def
           split: sum.splits module_value.splits)

lemma plain_package:
  assumes "p_extensionPath params = Some path" "path \<noteq> []" "accepted env params"
    and "which_sync env path = None" "existsSync env path"
    and "findPackage env path = Inr pk" "pkg_main pk = Some main" "main \<noteq> []"
    and "\<not> pkg_clikit pk
         \<or> (case load_result_of env main of
               Loaded_object loaded \<Rightarrow> \<not> compatible loaded
             | _ \<Rightarrow> False)"
  shows "executable_variant (Extension_constructor env (Some params)) (execPath env) [path]"
  using assms(3,9)
  by (auto simp: on_disk [OF assms(1,2,4-8)] load_clikit_package_cases finish_accepted
                 executable_variant_def Let_def
           split: load_result.splits)

lemma loaded_context:
  assumes "p_extensionPath params = Some path" "path \<noteq> []"
    and "which_sync env path = None" "existsSync env path"
    and "findPackage env path = Inr pk" "pkg_main pk = Some main" "main \<noteq> []"
    and "pkg_clikit pk" "load_result_of env main = Loaded_object loaded" "compatible loaded"
  shows "case Context_constructor env (loaded\<lparr>p_parent := p_parent params\<rparr>) of
           Inl e \<Rightarrow> Extension_constructor env (Some params) = Inl e
         | Inr ctx \<Rightarrow>
             clikit_variant (Extension_constructor env (Some params)) loaded
               (p_parent params)"
proof (cases "Context_constructor env (loaded\<lparr>p_parent := p_parent params\<rparr>)")
  case (Inl e)
  then show ?thesis
    using assms(8-10)
    by (simp add: on_disk [OF assms(1-7)] load_clikit_package_cases finish_refused)
next
  case (Inr ctx)
  then have "accepted env (loaded\<lparr>p_parent := p_parent params\<rparr>)"
    by (simp add: Context_constructor_cases)
  then show ?thesis
    using Inr assms(8-10)
    by (simp add: on_disk [OF assms(1-7)] load_clikit_package_cases finish_accepted
                  clikit_variant_def own_context_sel Let_def)
qed

lemma not_loaded:
  assumes "p_extensionPath params = Some path" "path \<noteq> []" "accepted env params"
    and "which_sync env path = None" "existsSync env path"
    and "findPackage env path = Inr pk" "pkg_main pk = Some main" "main \<noteq> []"
    and "pkg_clikit pk"
    and "load_result_of env main = Load_error e \<and> err = Some e
         \<or> load_result_of env main = Loaded_other \<and> err = None"
  shows "if ignoreInvalidExtensions params
         then invalid_stub (Extension_constructor env (Some params))
                (BadExtensionStub (json_name (pkg_json pk)) err)
         else fails_with (Extension_constructor env (Some params)) INVALID_EXTENSION"
proof -
  have "accepted env (params\<lparr>p_action := a\<rparr>)" for a
    using assms(3) by simp
  then show ?thesis
    using assms(9,10)
    by (auto simp: on_disk [OF assms(1,2,4-8)] load_clikit_package_cases finish_accepted
                   invalid_stub_def fails_with_def Let_def)
qed

lemma stub_writes_to_stderr:
  "\<exists>ws. run_stub rt a (Some t) = Inr ws \<and> (\<forall>w \<in> set ws. fst w = stderr t)"
  by (auto simp: run_stub_def)

lemma bad_extension_stub_prints:
  "\<exists>line ws. run_stub rt (BadExtensionStub n err) (Some t) = Inr ((stderr t, line) # ws)"
  by (cases err) (simp_all add: run_stub_def)

lemma missing_extension_stub_prints:
  "run_stub rt (MissingExtensionStub path) (Some t)
     = Inr [(stderr t, ''Extension not found: '' @ highlight rt path @ newline)]"
  by (simp add: run_stub_def)

text \<open>
  Claim C1, as stated, at a concrete input. The path \<^verbatim>\<open>./plain\<close> is not an executable on
  PATH and exists on disk; its manifest declares cli-kit compatibility; the entry point
  loads and exports a plain object (no marker set); ignoreInvalidExtensions is set on the
  parent. The claim leaves three outcomes: the cli-kit variant, the stub, or
  INVALID_EXTENSION. The constructor returns none of them: it returns the executable
  variant that runs the path under the current runtime.
\<close>

theorem Extension_constructor_plain_object_counterexample:
  "which_sync example_environment ''./plain'' = None
   \<and> existsSync example_environment ''./plain''
   \<and> findPackage example_environment ''./plain''
       = Inr \<lparr>pkg_clikit = True, pkg_json = example_manifest ''plain'',
              pkg_main = Some ''./plain/index.js''\<rparr>
   \<and> load_result_of example_environment ''./plain/index.js''
       = Loaded_object example_plain_object
   \<and> ignoreInvalidExtensions (example_params ''./plain'' example_lenient_parent)
   \<and> \<not> claimed_clikit_outcome
         (Extension_constructor example_environment
            (Some (example_params ''./plain'' example_lenient_parent)))
   \<and> executable_variant
         (Extension_constructor example_environment
            (Some (example_params ''./plain'' example_lenient_parent)))
         ''/usr/bin/node'' [''./plain'']"
  by (simp add: example_environment_def example_params_def example_lenient_parent_def
                example_plain_object_def example_manifest_def
                load_result_of_def ignoreInvalidExtensions_def claimed_clikit_outcome_def
                executable_variant_def Extension_constructor_def resolve_def finish_def
                Command_constructor_def Context_constructor_def Context_checks_def
                declares_contents_def own_context_def
                load_clikit_package_def compatible_def apply_manifest_def
                manifest_aliases_def with_pushed_aliases_def visible_aliases_def
                trim_def nonempty_def Let_def)

text \<open>
  Claim C1, amended. For every non-empty extension path given to the Extension
  constructor in parameters that the Context constructor accepts, resolution follows this
  order. (1) If the path resolves as an executable on PATH (a non-empty path), the
  Extension is the executable variant whose action runs exec. (2) Else if the path exists
  on disk, the nearest package is looked up (an error of the lookup is the error of the
  constructor) and a package without a main file fails with INVALID_EXTENSION; a package
  without cli-kit metadata, and also a package with the metadata whose entry point exports
  an object that is not a cli-kit CLI or Command, is the executable variant run under the
  current runtime with executable=runtime and execArgs=[path]; an exported cli-kit CLI or
  Command is merged (isCLIKitExtension=true, no executable; its action, its banner and the
  properties that mixing copies are the Extension's, under the parent given to the
  constructor) unless the Context constructor refuses it, and then the constructor fails
  with that error; when the load throws or exports no object, the outcome is the invalid
  stub if ignoreInvalidExtensions is set on the parameters or on the parent chain, and
  INVALID_EXTENSION otherwise. (3) Else the path is missing: an invalid stub if
  ignoreMissingExtensions is set, INVALID_EXTENSION otherwise. When the scoped read of
  \<^verbatim>\<open>terminal\<close> yields a terminal, the action of either stub writes its diagnostic to the
  stderr stream of that terminal and to no other stream.
\<close>

theorem Extension_constructor_resolution:
  assumes "p_extensionPath params = Some path" and "path \<noteq> []" and "accepted env params"
  shows
    "(\<forall>exe. which_sync env path = Some exe \<and> exe \<noteq> [] \<longrightarrow>
        executable_variant (Extension_constructor env (Some params)) exe [])
     \<and> (which_sync env path = None \<and> existsSync env path \<longrightarrow>
          (case findPackage env path of
             Inl e \<Rightarrow> Extension_constructor env (Some params) = Inl e
           | Inr pk \<Rightarrow>
               (case pkg_main pk of
                  None \<Rightarrow> fails_with (Extension_constructor env (Some params)) INVALID_EXTENSION
                | Some main \<Rightarrow>
                    if main = [] then
                      fails_with (Extension_constructor env (Some params)) INVALID_EXTENSION
                    else if \<not> pkg_clikit pk then
                      executable_variant (Extension_constructor env (Some params))
                        (execPath env) [path]
                    else
                      (case load_result_of env main of
                         Loaded_object loaded \<Rightarrow>
                           if \<not> compatible loaded then
                             executable_variant (Extension_constructor env (Some params))
                               (execPath env) [path]
                           else
                             (case Context_constructor env
                                     (loaded\<lparr>p_parent := p_parent params\<rparr>) of
                                Inl e \<Rightarrow> Extension_constructor env (Some params) = Inl e
                              | Inr ctx \<Rightarrow>
                                  clikit_variant (Extension_constructor env (Some params))
                                    loaded (p_parent params))
                       | Load_error e \<Rightarrow>
                           if ignoreInvalidExtensions params then
                             invalid_stub (Extension_constructor env (Some params))
                               (BadExtensionStub (json_name (pkg_json pk)) (Some e))
                           else
                             fails_with (Extension_constructor env (Some params))
                               INVALID_EXTENSION
                       | Loaded_other \<Rightarrow>
                           if ignoreInvalidExtensions params then
                             invalid_stub (Extension_constructor env (Some params))
                               (BadExtensionStub (json_name (pkg_json pk)) None)
                           else
                             fails_with (Extension_constructor env (Some params))
                               INVALID_EXTENSION))))
     \<and> (which_sync env path = None \<and> \<not> existsSync env path \<longrightarrow>
          (if ignoreMissingExtensions params then
             invalid_stub (Extension_constructor env (Some params))
               (MissingExtensionStub path)
           else fails_with (Extension_constructor env (Some params)) INVALID_EXTENSION))
     \<and> (\<forall>rt t n err. \<exists>line ws.
           run_stub rt (BadExtensionStub n err) (Some t) = Inr ((stderr t, line) # ws)
           \<and> (\<forall>w \<in> set ws. fst w = stderr t))
     \<and> (\<forall>rt t. \<exists>line.
           run_stub rt (MissingExtensionStub path) (Some t) = Inr [(stderr t, line)])"
proof (intro conjI allI impI)
  fix exe
  assume "which_sync env path = Some exe \<and> exe \<noteq> []"
  then show "executable_variant (Extension_constructor env (Some params)) exe []"
    using on_path [OF assms] by simp
next
  assume disk: "which_sync env path = None \<and> existsSync env path"
  show "case findPackage env path of
          Inl e \<Rightarrow> Extension_constructor env (Some params) = Inl e
        | Inr pk \<Rightarrow>
            (case pkg_main pk of
               None \<Rightarrow> fails_with (Extension_constructor env (Some params)) INVALID_EXTENSION
             | Some main \<Rightarrow>
                 if main = [] then
                   fails_with (Extension_constructor env (Some params)) INVALID_EXTENSION
                 else if \<not> pkg_clikit pk then
                   executable_variant (Extension_constructor env (Some params))
                     (execPath env) [path]
                 else
                   (case load_result_of env main of
                      Loaded_object loaded \<Rightarrow>
                        if \<not> compatible loaded then
                          executable_variant (Extension_constructor env (Some params))
                            (execPath env) [path]
                        else
                          (case Context_constructor env
                                  (loaded\<lparr>p_parent := p_parent params\<rparr>) of
                             Inl e \<Rightarrow> Extension_constructor env (Some params) = Inl e
                           | Inr ctx \<Rightarrow>
                               clikit_variant (Extension_constructor env (Some params))
                                 loaded (p_parent params))
                    | Load_error e \<Rightarrow>
                        if ignoreInvalidExtensions params then
                          invalid_stub (Extension_constructor env (Some params))
                            (BadExtensionStub (json_name (pkg_json pk)) (Some e))
                        else
                          fails_with (Extension_constructor env (Some params))
                            INVALID_EXTENSION
                    | Loaded_other \<Rightarrow>
                        if ignoreInvalidExtensions params then
                          invalid_stub (Extension_constructor env (Some params))
                            (BadExtensionStub (json_name (pkg_json pk)) None)
                        else
                          fails_with (Extension_constructor env (Some params))
                            INVALID_EXTENSION))"
  proof (cases "findPackage env path")
    case (Inl e)
    then show ?thesis
      using package_fails [OF assms(1,2)] disk by simp
  next
    case (Inr pk)
    note found = assms(1,2) conjunct1 [OF disk] conjunct2 [OF disk] Inr
    show ?thesis
    proof (cases "nonempty (pkg_main pk)")
      case False
      then show ?thesis
        using no_main [OF found] Inr by (auto simp: nonempty_def split: option.splits)
    next
      case True
      then obtain main where main: "pkg_main pk = Some main" "main \<noteq> []"
        by (auto simp: nonempty_def split: option.splits)
      note entry = found main
      show ?thesis
      proof (cases "pkg_clikit pk")
        case False
        then show ?thesis
          using plain_package [OF assms(1,2,3) found(3-5) main] Inr main by simp
      next
        case True
        show ?thesis
        proof (cases "load_result_of env main")
          case (Load_error e)
          then show ?thesis
            using not_loaded [OF assms(1,2,3) found(3-5) main True, of e "Some e"]
                  Inr main True
            by simp
        next
          case Loaded_other
          then show ?thesis
            using not_loaded [OF assms(1,2,3) found(3-5) main True, of _ None]
                  Inr main True
            by simp
        next
          case (Loaded_object loaded)
          show ?thesis
          proof (cases "compatible loaded")
            case False
            then show ?thesis
              using plain_package [OF assms(1,2,3) found(3-5) main] Inr main True
                    Loaded_object
              by simp
          next
            case compat: True
            then show ?thesis
              using loaded_context [OF entry True Loaded_object compat] Inr main True
                    Loaded_object
              by simp
          qed
        qed
      qed
    qed
  qed
next
  assume "which_sync env path = None \<and> \<not> existsSync env path"
  then show "if ignoreMissingExtensions params
             then invalid_stub (Extension_constructor env (Some params))
                    (MissingExtensionStub path)
             else fails_with (Extension_constructor env (Some params)) INVALID_EXTENSION"
    using missing_path [OF assms] by (simp split: if_splits)
next
  fix rt :: runtime and t :: terminal and n err
  obtain ws where ws: "run_stub rt (BadExtensionStub n err) (Some t) = Inr ws"
    "\<forall>w \<in> set ws. fst w = stderr t"
    using stub_writes_to_stderr by blast
  obtain line ws' where "run_stub rt (BadExtensionStub n err) (Some t)
                           = Inr ((stderr t, line) # ws')"
    using bad_extension_stub_prints by blast
  with ws show "\<exists>line ws. run_stub rt (BadExtensionStub n err) (Some t)
                             = Inr ((stderr t, line) # ws)
                           \<and> (\<forall>w \<in> set ws. fst w = stderr t)"
    by auto
next
  fix rt :: runtime and t :: terminal
  show "\<exists>line. run_stub rt (MissingExtensionStub path) (Some t) = Inr [(stderr t, line)]"
    by (simp add: missing_extension_stub_prints)
qed

theorem Extension_constructor_resolution_witness:
  "executable_variant
     (Extension_constructor example_environment
        (Some (example_params ''git'' example_strict_parent))) ''/usr/bin/git'' []
   \<and> clikit_variant
       (Extension_constructor example_environment
          (Some (example_params ''./plugin'' example_strict_parent)))
       example_plugin_context (Some example_strict_parent)
   \<and> Extension_constructor example_environment
         (Some (example_params ''./broken'' example_strict_parent))
       = Inl (E INVALID_ARGUMENT ''Expected args to be an array'')
   \<and> invalid_stub
       (Extension_constructor example_environment
          (Some (example_params ''./bad'' example_lenient_parent)))
       (BadExtensionStub (Some ''bad'') (Some (Foreign ''Cannot find module'')))
   \<and> fails_with
       (Extension_constructor example_environment
          (Some (example_params ''./bad'' example_strict_parent))) INVALID_EXTENSION
   \<and> executable_variant
       (Extension_constructor example_environment
          (Some (example_params ''./script'' example_strict_parent)))
       ''/usr/bin/node'' [''./script'']
   \<and> invalid_stub
       (Extension_constructor example_environment
          (Some (example_params ''./gone'' example_lenient_parent)))
       (MissingExtensionStub ''./gone'')
   \<and> fails_with
       (Extension_constructor example_environment
          (Some (example_params ''./gone'' example_strict_parent))) INVALID_EXTENSION"
  using Extension_constructor_resolution
          [of "example_params ''git'' example_strict_parent" "''git'' " example_environment]
        Extension_constructor_resolution
          [of "example_params ''./plugin'' example_strict_parent" "''./plugin''"
              example_environment]
        Extension_constructor_resolution
          [of "example_params ''./broken'' example_strict_parent" "''./broken''"
              example_environment]
        Extension_constructor_resolution
          [of "example_params ''./bad'' example_lenient_parent" "''./bad''"
              example_environment]
        Extension_constructor_resolution
          [of "example_params ''./bad'' example_strict_parent" "''./bad''"
              example_environment]
        Extension_constructor_resolution
          [of "example_params ''./script'' example_strict_parent" "''./script''"
              example_environment]
        Extension_constructor_resolution
          [of "example_params ''./gone'' example_lenient_parent" "''./gone''"
              example_environment]
        Extension_constructor_resolution
          [of "example_params ''./gone'' example_strict_parent" "''./gone''"
              example_environment]
  by (simp add: example_environment_def example_params_def example_lenient_parent_def
                example_strict_parent_def example_plugin_context_def
                example_broken_context_def example_manifest_def
                accepted_def Context_constructor_def Context_checks_def
                declares_contents_def load_result_of_def compatible_def
                ignoreInvalidExtensions_def ignoreMissingExtensions_def own_context_def
                copied_properties_def ignoreOut_of_def)

section \<open>Properties of Extension.exec\<close>

text \<open>
  Claim C10. For every Extension whose executable field is null, whatever the terminal,
  the streams of the process and the fate of a child may be, the promise that exec
  returns is rejected with a NO_EXECUTABLE error, no child process is spawned and nothing
  is piped.
\<close>

theorem Extension_exec_without_executable:
  "executable this = None \<Longrightarrow>
     returned (Extension_exec this found_terminal process close_event)
       = Rejected (E NO_EXECUTABLE ''No executable to run'')
     \<and> spawned (Extension_exec this found_terminal process close_event) = None
     \<and> piped (Extension_exec this found_terminal process close_event) = []"
  by (simp add: Extension_exec_def nonempty_def)

theorem Extension_exec_without_executable_witness:
  "executable example_stub_extension = None
   \<and> returned (Extension_exec example_stub_extension (Some example_terminal)
                 example_terminal (Some (Some (Code 0))))
       = Rejected (E NO_EXECUTABLE ''No executable to run'')
   \<and> spawned (Extension_exec example_stub_extension (Some example_terminal)
                 example_terminal (Some (Some (Code 0)))) = None
   \<and> piped (Extension_exec example_stub_extension (Some example_terminal)
                 example_terminal (Some (Some (Code 0)))) = []"
  using Extension_exec_without_executable
          [of example_stub_extension "Some example_terminal" example_terminal
              "Some (Some (Code 0))"]
  by (simp add: example_stub_extension_def)

lemma Extension_exec_with_terminal:
  assumes "executable this = Some exe" and "exe \<noteq> []"
  shows "spawned (Extension_exec this (Some t) process close_event)
           = Some \<lparr>spawn_command = exe, spawn_args = execArgs this,
                   spawn_stdio =
                     [stdio_for (isCLIKitExtension this) (stdin t) (stdin process),
                      stdio_for (isCLIKitExtension this) (stdout t) (stdout process),
                      stdio_for (isCLIKitExtension this) (stderr t) (stderr process)]\<rparr>
         \<and> returned (Extension_exec this (Some t) process close_event)
           = (case close_event of
                None \<Rightarrow> Pending
              | Some None \<Rightarrow> Resolved (Code 0)
              | Some (Some code) \<Rightarrow> Resolved code)"
  using assms
  by (auto simp: Extension_exec_def nonempty_def template_def stdio_for_def Let_def
           split: option.splits)

lemma Extension_exec_without_terminal:
  "nonempty (executable this) \<Longrightarrow>
   Extension_exec this None process close_event
     = \<lparr>spawned = None, piped = [],
        returned = Rejected (RuntimeTypeError ''Cannot destructure property of undefined'')\<rparr>"
  by (simp add: Extension_exec_def)

lemma get_through_empty_context:
  "own c name = None \<Longrightarrow> parent c = Some p \<Longrightarrow> get c name d = get p name d"
  by (cases "own p name")
     (simp_all add: get_and_loop_last_defined chain_unfold [of c] chain_unfold [of p]
                    last_defined_Cons or_default_def)

lemma load_clikit_package_keeps:
  "load_clikit_package env params path pk main = Inr (params1, False) \<Longrightarrow> params1 = params"
  by (auto simp: load_clikit_package_cases split: load_result.splits if_splits)

lemma resolve_keeps:
  "resolve env params path name = Inr l \<Longrightarrow> \<not> l_isCLIKitExtension l \<Longrightarrow>
   own_context (l_params l) = own_context params"
  by (auto simp: resolve_def Let_def dest: load_clikit_package_keeps
           split: option.splits sum.splits if_splits prod.splits)

lemma resolve_loaded:
  "resolve env params path name = Inr l \<Longrightarrow> l_isCLIKitExtension l \<Longrightarrow>
   l_executable l = None"
  by (auto simp: resolve_def Let_def split: option.splits sum.splits if_splits prod.splits)

lemma finish_context:
  "finish env path l = Inr x \<Longrightarrow>
   ext_context x = own_context (l_params l)
   \<and> (l_isCLIKitExtension l \<longrightarrow> executable x = l_executable l)"
  by (auto simp: finish_def Command_constructor_def Context_constructor_cases Let_def
           split: sum.splits if_splits)

lemma executable_keeps_parameters:
  assumes "Extension_constructor env (Some params) = Inr x" and "nonempty (executable x)"
  shows "ext_context x = own_context params"
proof -
  from assms(1) obtain path l where
    l: "resolve env params path (trim (case p_name params of None \<Rightarrow> [] | Some n \<Rightarrow> n))
          = Inr l"
    and x: "finish env path l = Inr x"
    by (auto simp: Extension_constructor_def Let_def split: option.splits if_splits sum.splits)
  have "\<not> l_isCLIKitExtension l"
    using resolve_loaded [OF l] finish_context [OF x] assms(2) by (auto simp: nonempty_def)
  then show ?thesis
    using resolve_keeps [OF l] finish_context [OF x] by simp
qed

lemma example_git_constructed:
  "Extension_constructor example_environment
     (Some (new_extension_params example_cli (Some ''git'') None))
     = Inr example_git_extension"
  by (simp add: example_git_extension_def example_environment_def new_extension_params_def
                Extension_constructor_def resolve_def finish_def Command_constructor_def
                Context_constructor_def Context_checks_def declares_contents_def
                compatible_def own_context_def copied_properties_def ignoreOut_of_def visible_aliases_def trim_def
                nonempty_def Let_def)

text \<open>
  Claim C7 on the extensions of a CLI. The CLI constructor assigns \<^verbatim>\<open>stdout\<close>,
  \<^verbatim>\<open>stderr\<close> and \<^verbatim>\<open>console\<close> to the new object and hands a fixed list of properties to
  the Context constructor; \<^verbatim>\<open>terminal\<close> is not among them, and no other code of the
  sources assigns a property of that name. So the scoped read of \<^verbatim>\<open>terminal\<close> on a CLI
  yields \<^verbatim>\<open>undefined\<close>. An extension that such a context creates from a path or from a
  descriptor gets the parameters \<^verbatim>\<open>extensionPath\<close>, \<^verbatim>\<open>name\<close> and \<^verbatim>\<open>parent\<close>. Whenever the
  constructor returns an Extension with an executable for them, the scoped read of
  \<^verbatim>\<open>terminal\<close> on the Extension yields \<^verbatim>\<open>undefined\<close> as well, the destructuring in
  \<^verbatim>\<open>exec\<close> throws, and so the promise is rejected with a TypeError, whatever becomes of a
  child: no process is spawned, nothing is piped and the promise is not resolved. The
  claim has the executable spawned and the promise resolved.
\<close>

theorem Extension_exec_rejects_for_the_extensions_of_a_CLI:
  assumes "get (as_context this) ''terminal'' None = None"
    and "Extension_constructor env (Some (new_extension_params this path ext_name)) = Inr x"
    and "nonempty (executable x)"
  shows "get (ext_context x) ''terminal'' None = None
         \<and> spawned (Extension_exec x None process close_event) = None
         \<and> piped (Extension_exec x None process close_event) = []
         \<and> returned (Extension_exec x None process close_event)
             = Rejected (RuntimeTypeError ''Cannot destructure property of undefined'')
         \<and> (\<forall>code. returned (Extension_exec x None process close_event) \<noteq> Resolved code)"
proof -
  have "ext_context x = own_context (new_extension_params this path ext_name)"
    using executable_keeps_parameters [OF assms(2,3)] .
  then have ctx: "ext_context x = Context (\<lambda>k. None) (Some (as_context this))"
    by (simp add: own_context_def new_extension_params_def copied_properties_def)
  have "get (ext_context x) ''terminal'' None = get (as_context this) ''terminal'' None"
    by (rule get_through_empty_context) (simp_all add: ctx)
  then show ?thesis
    using assms(1) by (simp add: Extension_exec_without_terminal [OF assms(3)])
qed

theorem Extension_exec_rejects_for_the_extensions_of_a_CLI_witness:
  "get (as_context example_cli) ''terminal'' None = None
   \<and> Extension_constructor example_environment
         (Some (new_extension_params example_cli (Some ''git'') None))
       = Inr example_git_extension
   \<and> executable example_git_extension = Some ''/usr/bin/git''
   \<and> get (ext_context example_git_extension) ''terminal'' None = None
   \<and> spawned (Extension_exec example_git_extension None example_terminal
                 (Some (Some (Code 0)))) = None
   \<and> returned (Extension_exec example_git_extension None example_terminal
                  (Some (Some (Code 0))))
       = Rejected (RuntimeTypeError ''Cannot destructure property of undefined'')"
  using Extension_exec_rejects_for_the_extensions_of_a_CLI
          [of example_cli example_environment "Some ''git''" None example_git_extension
              example_terminal "Some (Some (Code 0))"]
        example_git_constructed
  by (simp add: example_git_extension_def example_cli_def as_context_def nonempty_def)

section \<open>Properties of mixing a context\<close>

lemma reserved_properties_are_skipped:
  "k \<in> reserved_properties \<Longrightarrow> copied_properties ignoreOut [(k, v)] = []"
  by (auto simp: reserved_properties_def copied_properties_def propIgnoreRegExp_test_def
                 sublist_Cons_right)

lemma unmatched_properties_are_copied:
  "\<not> propIgnoreRegExp_test k \<Longrightarrow> (k, v) \<in> set ps \<Longrightarrow>
   (k, v) \<in> set (copied_properties ignoreOut ps)"
  by (auto simp: copied_properties_def)

lemma mixed_options_member:
  assumes "''CLI'' \<in> set clikit \<or> ''Command'' \<in> set clikit"
  shows "(option, grp) \<in> set (mixed_options clikit ancestors entries) \<longleftrightarrow>
           (\<exists>options. (grp, options) \<in> set entries \<and> option \<in> set options
              \<and> (''CLI'' \<in> set clikit \<and> opt_name option \<noteq> ''version''
                   \<longrightarrow> \<not> found_in_ancestors ancestors option))"
  using assms by (auto simp: mixed_options_def add_option_def)

text \<open>
  Claim C6 at a concrete input. A context with the own properties \<^verbatim>\<open>subcommands\<close>,
  \<^verbatim>\<open>kwargs\<close>, \<^verbatim>\<open>_eventsCount\<close> and \<^verbatim>\<open>title\<close> is mixed into a new context. None of the
  four names is in the reserved set, so the claim has all four copied; the pattern matches
  the first three (one contains \<^verbatim>\<open>commands\<close>, one contains \<^verbatim>\<open>args\<close>, one starts with
  \<^verbatim>\<open>_events\<close>) and only \<^verbatim>\<open>title\<close> is copied.
\<close>

theorem mixing_drops_properties_outside_the_reserved_set:
  "''subcommands'' \<notin> reserved_properties
   \<and> ''kwargs'' \<notin> reserved_properties
   \<and> ''_eventsCount'' \<notin> reserved_properties
   \<and> copied_properties False
        [(''subcommands'', JBool True), (''kwargs'', JNum 1), (''_eventsCount'', JNum 0),
         (''title'', JStr ''Tools'')]
      = [(''title'', JStr ''Tools'')]"
  by (simp add: reserved_properties_def copied_properties_def propIgnoreRegExp_test_def
                sublist_Cons_right suffix_to_prefix)

theorem mixing_drops_properties_outside_the_reserved_set_witness:
  "(''subcommands'', JBool True)
     \<notin> set (copied_properties False
               [(''subcommands'', JBool True), (''kwargs'', JNum 1), (''_eventsCount'', JNum 0),
                (''title'', JStr ''Tools'')])
   \<and> (''kwargs'', JNum 1)
     \<notin> set (copied_properties False
               [(''subcommands'', JBool True), (''kwargs'', JNum 1), (''_eventsCount'', JNum 0),
                (''title'', JStr ''Tools'')])
   \<and> (''title'', JStr ''Tools'')
     \<in> set (copied_properties False
               [(''subcommands'', JBool True), (''kwargs'', JNum 1), (''_eventsCount'', JNum 0),
                (''title'', JStr ''Tools'')])"
  using mixing_drops_properties_outside_the_reserved_set by simp

section \<open>Properties of the extensions of the CLI constructor\<close>

lemma register_aliases_cli_fields [simp]:
  "cli_warnings (register_aliases c ks st) = cli_warnings st"
  "cli_log (register_aliases c ks st) = cli_log st"
  by (induction ks arbitrary: st) simp_all

lemma registerCommand_cli_fields:
  "registerCommand this c = Inr st \<Longrightarrow>
     cli_warnings st = cli_warnings this \<and> cli_log st = cli_log this"
  by (auto simp: registerCommand_def Let_def split: if_splits option.splits)

lemma extension_cli_fields:
  "extension env this ext n = Inr st \<Longrightarrow>
     cli_warnings st = cli_warnings this \<and> cli_log st = cli_log this"
  by (auto simp: extension_def dest: registerCommand_cli_fields
           split: ext_ref.splits sum.splits)

lemma load_extensions_catches:
  "\<exists>st. load_extensions env this exts = Inr st
        \<and> cli_warnings st = cli_warnings this @ load_failures env this exts
        \<and> cli_log st = cli_log this @ load_failures env this exts"
proof (induction exts arbitrary: this)
  case Nil
  show ?case by simp
next
  case (Cons named exts)
  obtain n ext where named: "named = (n, ext)"
    by (cases named)
  show ?case
  proof (cases "extension env this ext n")
    case (Inl e)
    from Cons.IH [of "push_warning this e"] obtain st where
      "load_extensions env (push_warning this e) exts = Inr st"
      "cli_warnings st = cli_warnings (push_warning this e)
                          @ load_failures env (push_warning this e) exts"
      "cli_log st = cli_log (push_warning this e)
                     @ load_failures env (push_warning this e) exts"
      by blast
    then show ?thesis
      using Inl named by (simp add: try_catch_def push_warning_def)
  next
    case (Inr this1)
    from Cons.IH [of this1] obtain st where
      "load_extensions env this1 exts = Inr st"
      "cli_warnings st = cli_warnings this1 @ load_failures env this1 exts"
      "cli_log st = cli_log this1 @ load_failures env this1 exts"
      by blast
    then show ?thesis
      using Inr named extension_cli_fields [OF Inr] by (simp add: try_catch_def)
  qed
qed

text \<open>
  Claim C4, as stated, at a concrete input. The CLI has ignoreInvalidExtensions set to
  false and is constructed with the extension \<^verbatim>\<open>./bad\<close>, a cli-kit package whose entry
  point cannot be loaded. The load fails with INVALID_EXTENSION, and the claim has the
  error propagate so that the construction fails; the constructor completes, with the
  error as the one warning of the CLI.
\<close>

theorem CLI_constructor_strict_flag_counterexample:
  "get (as_context example_cli_without_default) ''ignoreInvalidExtensions'' None
     = Some (JBool False)
   \<and> fails_with (extension example_environment example_cli_without_default
                   (Ext_path ''./bad'') None) INVALID_EXTENSION
   \<and> (case CLI_constructor_extensions example_environment example_cli_without_default
              (Extension_array [Ext_path ''./bad'']) of
         Inl e \<Rightarrow> False
       | Inr st \<Rightarrow>
           map code_of (cli_warnings st) = [Some INVALID_EXTENSION]
           \<and> cli_log st = cli_warnings st
           \<and> commands st = commands example_cli_without_default)"
  by (simp add: example_cli_without_default_def example_environment_def
                example_manifest_def as_context_def
                CLI_constructor_extensions_def try_catch_def push_warning_def
                extension_def new_extension_params_def fails_with_def
                Extension_constructor_def resolve_def load_clikit_package_def
                ignoreInvalidExtensions_def trim_def Let_def)

text \<open>
  Claim C4, amended. When a CLI is constructed with extensions, every extension-load
  failure is caught, appended to the warnings list of the root and logged, whatever
  ignoreInvalidExtensions is: the statement that loads the extensions always completes,
  and afterwards the warnings and the log are the ones from before followed by the
  failures of the loads, in order.
\<close>

theorem CLI_constructor_catches_every_extension_failure:
  "\<exists>st. CLI_constructor_extensions env this extensions = Inr st
        \<and> cli_warnings st
            = cli_warnings this @ load_failures env this (named_extensions extensions)
        \<and> cli_log st
            = cli_log this @ load_failures env this (named_extensions extensions)"
  using load_extensions_catches [of env this "named_extensions extensions"]
  by (cases extensions)
     (simp_all add: CLI_constructor_extensions_def named_extensions_def)

lemma example_load_failures:
    "map code_of (load_failures example_environment example_cli
                    (named_extensions (Extension_array [Ext_path ''./gone'', Ext_other])))
       = [Some INVALID_EXTENSION, Some INVALID_ARGUMENT]"
    by (simp add: example_cli_def example_environment_def named_extensions_def
                  as_context_def extension_def new_extension_params_def push_warning_def
                  Extension_constructor_def resolve_def finish_def Command_constructor_def
                  Context_constructor_def Context_checks_def declares_contents_def
                  compatible_def
                  ignoreMissingExtensions_def own_context_def copied_properties_def
                  ignoreOut_of_def visible_aliases_def nonempty_def trim_def Let_def)

theorem CLI_constructor_catches_every_extension_failure_witness:
  "map code_of (load_failures example_environment example_cli
                  (named_extensions (Extension_array [Ext_path ''./gone'', Ext_other])))
     = [Some INVALID_EXTENSION, Some INVALID_ARGUMENT]
   \<and> (\<exists>st. CLI_constructor_extensions example_environment example_cli
               (Extension_array [Ext_path ''./gone'', Ext_other]) = Inr st
          \<and> map code_of (cli_warnings st) = [Some INVALID_EXTENSION, Some INVALID_ARGUMENT]
          \<and> map code_of (cli_log st) = [Some INVALID_EXTENSION, Some INVALID_ARGUMENT])"
proof -
  from CLI_constructor_catches_every_extension_failure
         [of example_environment example_cli
             "Extension_array [Ext_path ''./gone'', Ext_other]"]
  obtain st where st:
    "CLI_constructor_extensions example_environment example_cli
       (Extension_array [Ext_path ''./gone'', Ext_other]) = Inr st"
    "cli_warnings st = cli_warnings example_cli
       @ load_failures example_environment example_cli
           (named_extensions (Extension_array [Ext_path ''./gone'', Ext_other]))"
    "cli_log st = cli_log example_cli
       @ load_failures example_environment example_cli
           (named_extensions (Extension_array [Ext_path ''./gone'', Ext_other]))"
    by blast
  have empty: "cli_warnings example_cli = []" "cli_log example_cli = []"
    by (simp_all add: example_cli_def)
  show ?thesis
    using st example_load_failures by (simp add: empty)
qed

section \<open>Properties of CLI.exec\<close>

lemma CLI_exec_ready:
  "ready this inp \<Longrightarrow> in_parse inp = Parsed pr \<Longrightarrow>
   CLI_exec this inp h =
     (case dispatch this pr h of
        Inr out \<Rightarrow> Inr out
      | Inl (err, h1) \<Rightarrow> on_error this inp h1 err None)"
  by (simp add: CLI_exec_def ready_def)

lemma select_command_help:
  "first_context h (pr_contexts pr) = Some terminal \<Longrightarrow> help_requested this pr terminal \<Longrightarrow>
   select_command this pr h =
     (map_option Cmd (commands_get (commands this) ''help''),
      unshift h (pr_contexts pr) (map_option Cmd (commands_get (commands this) ''help'')))"
  by (auto simp: select_command_def help_requested_def Let_def)

lemma select_command_explicit:
  "first_context h (pr_contexts pr) = Some (Cmd c) \<Longrightarrow>
   \<not> help_requested this pr (Cmd c) \<Longrightarrow>
   select_command this pr h = (Some (Cmd c), h)"
  by (auto simp: select_command_def help_requested_def Let_def)

lemma select_command_default:
  "first_context h (pr_contexts pr) = Some This_CLI \<Longrightarrow>
   \<not> help_requested this pr This_CLI \<Longrightarrow>
   select_command this pr h =
     (case default_registered this of
        Some d \<Rightarrow> (Some (Cmd d), unshift h (pr_contexts pr) (Some (Cmd d)))
      | None \<Rightarrow> (Some This_CLI, h))"
  by (auto simp: select_command_def help_requested_def default_registered_def Let_def
                 nonempty_def template_def commands_has_def commands_get_def
           split: option.splits)

lemma dispatch_selected:
  "select_command this pr h = (Some (Cmd c), h1) \<Longrightarrow>
   selects (case dispatch this pr h of
              Inr out \<Rightarrow> Inr out
            | Inl (err, h2) \<Rightarrow> on_error this inp h2 err None) c"
  by (cases "action_of c") (simp_all add: dispatch_def selects_def)

text \<open>
  Claim C2. When the checks before the parse pass and the parser returns a result whose
  first context is \<open>terminal\<close>, the command is chosen with this priority: the registered
  help command when help is enabled and the help flag was parsed, unless the terminal
  context is an Extension that is not a cli-kit extension; else the command the parser
  ended on; else, the parser having found no command, the registered default command;
  else no command, and exec returns the parse result without calling an action.
\<close>

theorem CLI_exec_selects_by_priority:
  assumes "ready this inp" and "in_parse inp = Parsed pr"
    and "first_context h (pr_contexts pr) = Some terminal"
  shows "if help_requested this pr terminal then
           (\<forall>help. commands_get (commands this) ''help'' = Some help \<longrightarrow>
                   selects (CLI_exec this inp h) help)
         else
           (case terminal of
              Cmd c \<Rightarrow> selects (CLI_exec this inp h) c
            | This_CLI \<Rightarrow>
                (case default_registered this of
                   Some d \<Rightarrow> selects (CLI_exec this inp h) d
                 | None \<Rightarrow> returns_parse_result (CLI_exec this inp h) this pr h))"
proof (cases "help_requested this pr terminal")
  case True
  then show ?thesis
    using select_command_help [OF assms(3) True] dispatch_selected [of this pr h _ _ inp]
    by (auto simp: CLI_exec_ready [OF assms(1,2)])
next
  case False
  show ?thesis
  proof (cases terminal)
    case (Cmd c)
    then show ?thesis
      using False assms(3) select_command_explicit [of h pr c this]
            dispatch_selected [of this pr h c h inp]
      by (simp add: CLI_exec_ready [OF assms(1,2)])
  next
    case This_CLI
    show ?thesis
    proof (cases "default_registered this")
      case None
      then show ?thesis
        using False This_CLI assms(3) select_command_default [of h pr this]
        by (simp add: CLI_exec_ready [OF assms(1,2)] dispatch_def
                      returns_parse_result_def)
    next
      case (Some d)
      then show ?thesis
        using False This_CLI assms(3) select_command_default [of h pr this]
              dispatch_selected [of this pr h d _ inp]
        by (simp add: CLI_exec_ready [OF assms(1,2)])
    qed
  qed
qed

lemma example_ready:
  "ready example_cli (example_input argv)"
  "ready example_cli_without_default (example_input argv)"
  by (simp_all add: ready_def node_version_error_def example_cli_def
                    example_cli_without_default_def example_input_def nonempty_def)

lemma example_parsed: "in_parse (example_input argv) = Parsed (example_parse argv)"
  by (simp add: example_input_def)

lemma example_first_context:
  "first_context (example_store (c # cs)) (pr_contexts (example_parse argv)) = Some c"
  by (simp add: first_context_def example_store_def example_parse_def)

lemma example_help_requested:
  "help_requested example_cli (example_parse [(''help'', JBool True)]) (Cmd example_build)"
  "\<not> help_requested example_cli (example_parse [(''help'', JBool True)])
       (Cmd (Extension example_executable_extension))"
  "\<not> help_requested example_cli (example_parse []) terminal"
  "\<not> help_requested example_cli_without_default (example_parse argv) terminal"
  by (simp_all add: help_requested_def example_cli_def example_cli_without_default_def
                    example_parse_def example_build_def example_executable_extension_def)

lemma example_default_registered:
  "default_registered example_cli = Some example_help"
  "default_registered example_cli_without_default = None"
  "commands_get (commands example_cli) ''help'' = Some example_help"
  by (simp_all add: default_registered_def commands_get_def example_cli_def
                    example_cli_without_default_def)

theorem CLI_exec_selects_by_priority_witness:
  "selects (CLI_exec example_cli (example_input [(''help'', JBool True)])
              (example_store [Cmd example_build, This_CLI])) example_help
   \<and> selects (CLI_exec example_cli (example_input [(''help'', JBool True)])
                (example_store [Cmd (Extension example_executable_extension), This_CLI]))
        (Extension example_executable_extension)
   \<and> selects (CLI_exec example_cli (example_input [])
                (example_store [Cmd example_build, This_CLI])) example_build
   \<and> selects (CLI_exec example_cli (example_input []) (example_store [This_CLI]))
        example_help
   \<and> returns_parse_result
        (CLI_exec example_cli_without_default (example_input []) (example_store [This_CLI]))
        example_cli_without_default (example_parse []) (example_store [This_CLI])"
proof -
  have "selects (CLI_exec example_cli (example_input [(''help'', JBool True)])
                   (example_store [Cmd example_build, This_CLI])) example_help"
    using CLI_exec_selects_by_priority
            [OF example_ready(1) example_parsed example_first_context,
             of "[(''help'', JBool True)]" "Cmd example_build" "[This_CLI]"]
    by (simp add: example_help_requested example_default_registered)
  moreover
  have "selects (CLI_exec example_cli (example_input [(''help'', JBool True)])
                   (example_store [Cmd (Extension example_executable_extension), This_CLI]))
          (Extension example_executable_extension)"
    using CLI_exec_selects_by_priority
            [OF example_ready(1) example_parsed example_first_context,
             of "[(''help'', JBool True)]" "Cmd (Extension example_executable_extension)"
                "[This_CLI]"]
    by (simp add: example_help_requested)
  moreover
  have "selects (CLI_exec example_cli (example_input [])
                   (example_store [Cmd example_build, This_CLI])) example_build"
    using CLI_exec_selects_by_priority
            [OF example_ready(1) example_parsed example_first_context,
             of "[]" "Cmd example_build" "[This_CLI]"]
    by (simp add: example_help_requested)
  moreover
  have "selects (CLI_exec example_cli (example_input []) (example_store [This_CLI]))
          example_help"
    using CLI_exec_selects_by_priority
            [OF example_ready(1) example_parsed example_first_context,
             of "[]" This_CLI "[]"]
    by (simp add: example_help_requested example_default_registered)
  moreover
  have "returns_parse_result
          (CLI_exec example_cli_without_default (example_input [])
             (example_store [This_CLI]))
          example_cli_without_default (example_parse []) (example_store [This_CLI])"
    using CLI_exec_selects_by_priority
            [OF example_ready(2) example_parsed example_first_context,
             of "[]" This_CLI "[]"]
    by (simp add: example_help_requested example_default_registered)
  ultimately show ?thesis by simp
qed

lemma CLI_exec_Action_called:
  "CLI_exec this inp h = Inr (Action_called c res h1) \<Longrightarrow>
   \<exists>pr. in_parse inp = Parsed pr \<and> dispatch this pr h = Inr (Action_called c res h1)"
  by (auto simp: CLI_exec_def on_error_def
           split: option.splits if_splits parse_outcome.splits sum.splits prod.splits)

lemma dispatch_Action_called:
  "dispatch this pr h = Inr (Action_called c res h1) \<Longrightarrow>
   select_command this pr h = (Some (Cmd c), h1) \<and> r_contexts res = pr_contexts pr
   \<and> r_help res = Some (Cmd c) \<and> action_of c \<noteq> None"
  by (auto simp: dispatch_def Let_def
           split: prod.splits option.splits context_ref.splits)

lemma select_command_prepends:
  assumes "select_command this pr h = (Some (Cmd c), h1)"
  shows "first_context h1 (pr_contexts pr) = Some (Cmd c)
         \<and> (case first_context h (pr_contexts pr) of
               Some terminal \<Rightarrow>
                 if replaces_terminal this pr terminal
                 then h1 = unshift h (pr_contexts pr) (Some (Cmd c))
                 else h1 = h \<and> terminal = Cmd c
             | None \<Rightarrow> h1 = unshift h (pr_contexts pr) (Some (Cmd c)))"
proof (cases "first_context h (pr_contexts pr)")
  case None
  then show ?thesis
    using assms
    by (auto simp: select_command_def Let_def first_context_def unshift_def
             split: if_splits)
next
  case (Some terminal)
  show ?thesis
  proof (cases "help_requested this pr terminal")
    case True
    then show ?thesis
      using assms Some select_command_help [OF Some True]
      by (auto simp: replaces_terminal_def first_context_def unshift_def)
  next
    case False
    show ?thesis
    proof (cases terminal)
      case (Cmd k)
      then show ?thesis
        using assms Some False select_command_explicit [of h pr k this]
        by (auto simp: replaces_terminal_def)
    next
      case This_CLI
      then show ?thesis
        using assms Some False select_command_default [of h pr this]
        by (auto simp: replaces_terminal_def first_context_def unshift_def
                 split: option.splits)
    qed
  qed
qed

text \<open>
  Claim C9. Whenever exec calls the action of a command \<open>c\<close> with the results record, the
  first element of the array that the contexts field of the record refers to is \<open>c\<close>.
  When the help command or the default command was chosen in place of the context the
  parser ended on, the array is the one of the parse result with \<open>c\<close> put in front;
  otherwise the array is unchanged and \<open>c\<close> is the context the parser ended on.
\<close>

theorem CLI_exec_called_command_is_first_context:
  assumes "CLI_exec this inp h = Inr (Action_called c res h1)"
  shows "\<exists>pr. in_parse inp = Parsed pr
              \<and> r_contexts res = pr_contexts pr
              \<and> first_context h1 (r_contexts res) = Some (Cmd c)
              \<and> (case first_context h (pr_contexts pr) of
                    Some terminal \<Rightarrow>
                      if replaces_terminal this pr terminal
                      then h1 = unshift h (pr_contexts pr) (Some (Cmd c))
                      else h1 = h \<and> terminal = Cmd c
                  | None \<Rightarrow> h1 = unshift h (pr_contexts pr) (Some (Cmd c)))"
proof -
  from CLI_exec_Action_called [OF assms] obtain pr where
    pr: "in_parse inp = Parsed pr" "dispatch this pr h = Inr (Action_called c res h1)"
    by blast
  from dispatch_Action_called [OF pr(2)] have
    sel: "select_command this pr h = (Some (Cmd c), h1)" "r_contexts res = pr_contexts pr"
    by simp_all
  from select_command_prepends [OF sel(1)] pr(1) sel(2) show ?thesis
    by auto
qed

lemma example_exec_default:
  "CLI_exec example_cli (example_input []) (example_store [This_CLI])
     = Inr (Action_called example_help
              \<lparr>r_positional = [], r_argv = [], r_contexts = 0, r_unknown = [],
               r_warnings = [], r_help = Some (Cmd example_help)\<rparr>
              (unshift (example_store [This_CLI]) 0 (Some (Cmd example_help))))"
  by (simp add: CLI_exec_def dispatch_def select_command_def node_version_error_def
                example_cli_def example_input_def example_parse_def example_store_def
                example_help_def first_context_def nonempty_def template_def
                commands_has_def commands_get_def Let_def)

theorem CLI_exec_called_command_is_first_context_witness:
  "CLI_exec example_cli (example_input []) (example_store [This_CLI])
     = Inr (Action_called example_help
              \<lparr>r_positional = [], r_argv = [], r_contexts = 0, r_unknown = [],
               r_warnings = [], r_help = Some (Cmd example_help)\<rparr>
              (unshift (example_store [This_CLI]) 0 (Some (Cmd example_help))))
   \<and> first_context (unshift (example_store [This_CLI]) 0 (Some (Cmd example_help))) 0
     = Some (Cmd example_help)
   \<and> unshift (example_store [This_CLI]) 0 (Some (Cmd example_help)) 0
     = [Some (Cmd example_help), Some This_CLI]
   \<and> replaces_terminal example_cli (example_parse []) This_CLI"
  using CLI_exec_called_command_is_first_context [OF example_exec_default]
        example_exec_default
  by (simp add: example_input_def example_parse_def example_store_def unshift_def
                first_context_def replaces_terminal_def default_registered_def
                example_cli_def commands_get_def)

text \<open>
  Claim C8, as stated, at a concrete input. The default command of the CLI is
  \<^verbatim>\<open>deploy\<close> and no command of that name is registered; help is disabled and the parser
  finds no command. The claim has the CLI fail with DEFAULT_COMMAND_NOT_FOUND; exec
  returns the parse result.
\<close>

theorem CLI_exec_missing_default_counterexample:
  "cli_defaultCommand example_cli_without_default = Some ''deploy''
   \<and> \<not> commands_has (commands example_cli_without_default) ''deploy''
   \<and> ready example_cli_without_default (example_input [])
   \<and> returns_parse_result
        (CLI_exec example_cli_without_default (example_input []) (example_store [This_CLI]))
        example_cli_without_default (example_parse []) (example_store [This_CLI])
   \<and> \<not> fails_with
          (CLI_exec example_cli_without_default (example_input [])
             (example_store [This_CLI]))
          DEFAULT_COMMAND_NOT_FOUND"
  by (simp add: CLI_exec_def dispatch_def select_command_def node_version_error_def
                ready_def returns_parse_result_def fails_with_def
                example_cli_without_default_def example_input_def example_parse_def
                example_store_def first_context_def nonempty_def template_def
                commands_has_def Let_def)

text \<open>
  Claim C8, amended. When the default command of the CLI names no registered command,
  exec raises no error for it: it fails with DEFAULT_COMMAND_NOT_FOUND only if the parser
  threw that error. The default command is skipped, so when the checks before the parse
  pass, the parser returns a result and the help command is not chosen, exec keeps the
  context the parser ended on: a command the parser found is the chosen command, and with
  no command exec returns the parse result.
\<close>

theorem CLI_exec_skips_missing_default:
  assumes "default_registered this = None"
  shows "(fails_with (CLI_exec this inp h) DEFAULT_COMMAND_NOT_FOUND \<longrightarrow>
            (\<exists>e ec. in_parse inp = Parse_failed e ec
                     \<and> code_of e = Some DEFAULT_COMMAND_NOT_FOUND))
         \<and> (\<forall>pr terminal.
               ready this inp \<and> in_parse inp = Parsed pr
               \<and> first_context h (pr_contexts pr) = Some terminal
               \<and> \<not> help_requested this pr terminal \<longrightarrow>
               (case terminal of
                  Cmd c \<Rightarrow> selects (CLI_exec this inp h) c
                | This_CLI \<Rightarrow> returns_parse_result (CLI_exec this inp h) this pr h))"
proof (intro conjI allI impI)
  assume "fails_with (CLI_exec this inp h) DEFAULT_COMMAND_NOT_FOUND"
  then show "\<exists>e ec. in_parse inp = Parse_failed e ec
                     \<and> code_of e = Some DEFAULT_COMMAND_NOT_FOUND"
    by (auto simp: fails_with_def CLI_exec_def on_error_def dispatch_def
                   node_version_error_def Let_def
             split: option.splits if_splits parse_outcome.splits sum.splits prod.splits
                    context_ref.splits)
next
  fix pr terminal
  assume a: "ready this inp \<and> in_parse inp = Parsed pr
             \<and> first_context h (pr_contexts pr) = Some terminal
             \<and> \<not> help_requested this pr terminal"
  then have run: "CLI_exec this inp h =
                    (case dispatch this pr h of
                       Inr out \<Rightarrow> Inr out
                     | Inl (err, h1) \<Rightarrow> on_error this inp h1 err None)"
    using CLI_exec_ready [of this inp pr h] by simp
  show "case terminal of
          Cmd c \<Rightarrow> selects (CLI_exec this inp h) c
        | This_CLI \<Rightarrow> returns_parse_result (CLI_exec this inp h) this pr h"
  proof (cases terminal)
    case (Cmd c)
    then show ?thesis
      using a select_command_explicit [of h pr c this]
            dispatch_selected [of this pr h c h inp]
      by (simp add: run)
  next
    case This_CLI
    then show ?thesis
      using a assms select_command_default [of h pr this]
      by (simp add: run dispatch_def returns_parse_result_def)
  qed
qed

theorem CLI_exec_skips_missing_default_witness:
  "default_registered example_cli_without_default = None
   \<and> selects (CLI_exec example_cli_without_default (example_input [])
                (example_store [Cmd example_build, This_CLI])) example_build
   \<and> returns_parse_result
        (CLI_exec example_cli_without_default (example_input []) (example_store [This_CLI]))
        example_cli_without_default (example_parse []) (example_store [This_CLI])"
proof -
  have "selects (CLI_exec example_cli_without_default (example_input [])
                   (example_store [Cmd example_build, This_CLI])) example_build"
    using CLI_exec_skips_missing_default
            [OF example_default_registered(2),
             of "example_input []" "example_store [Cmd example_build, This_CLI]"]
          example_ready(2) [of "[]"] example_parsed [of "[]"]
          example_first_context [of "Cmd example_build" "[This_CLI]" "[]"]
          example_help_requested(4) [of "[]" "Cmd example_build"]
    by auto
  moreover
  have "returns_parse_result
          (CLI_exec example_cli_without_default (example_input [])
             (example_store [This_CLI]))
          example_cli_without_default (example_parse []) (example_store [This_CLI])"
    using CLI_exec_skips_missing_default
            [OF example_default_registered(2),
             of "example_input []" "example_store [This_CLI]"]
          example_ready(2) [of "[]"] example_parsed [of "[]"]
          example_first_context [of This_CLI "[]" "[]"]
          example_help_requested(4) [of "[]" This_CLI]
    by auto
  ultimately show ?thesis
    by (simp add: example_default_registered)
qed

end
